theory Spec2Isabelle
  imports Main "HOL-Library.Word" "HOL-Library.AList"
begin

unbundle bit_operations_syntax

section \<open>Values shared by the modules\<close>

text \<open>
  A \<open>Buffer\<close> is a list of bytes. A JavaScript string whose characters the program
  reads, counts or hands to an encoder is the list of its UTF-16 code units: the configured
  key (\<open>ENCRYPTION_KEY.length\<close>), the text that is encrypted and the text that
  decryption returns (\<open>cipher.update(text, "utf8", ...)\<close>,
  \<open>decipher.update(..., "hex", "utf8")\<close>), the school, identifier and password of a
  request (\<open>schoolId.trim()\<close>) and the strings inside JSON values. Hex strings,
  database and job identifiers and messages are \<open>string\<close>s.
\<close>

type_synonym byte = "8 word"
type_synonym buffer = "byte list"
type_synonym utf16 = "16 word list"

text \<open>
  What the code can throw: an \<open>Error\<close> with a message of its own, the failure of
  \<open>decipher.final\<close> to authenticate, the rejections of a key, an IV or a tag by the
  cipher, the rejection of a hex string with an odd number of digits by
  \<open>decipher.update\<close>, \<open>JSON.parse\<close> on malformed text, an assignment to a
  property of a value that is not an object, the rejection of a repeat interval by the
  broker, and whatever a provider throws.
\<close>

datatype error =
    Error string
  | AuthenticationFailed
  | InvalidKeyLength
  | InvalidIV
  | InvalidTagLength
  | InvalidArgValue
  | SyntaxError
  | TypeError
  | InvalidRepeatOptions
  | ProviderError string

text \<open>JavaScript values, as far as \<open>JSON.parse\<close> and the credential objects need them.
  An array carries its elements and the named properties assigned to it.\<close>

datatype jsvalue =
    Undefined
  | Null
  | Boolean bool
  | Number int
  | String utf16
  | Array "jsvalue list" "(string \<times> jsvalue) list"
  | Object "(string \<times> jsvalue) list"

text \<open>\<open>o.k = v\<close> in module (strict) code: an object or array gets or overwrites the
  property, \<open>null\<close>, \<open>undefined\<close> and the primitive values throw a \<open>TypeError\<close>.\<close>

fun set_property :: "jsvalue \<Rightarrow> string \<Rightarrow> jsvalue \<Rightarrow> error + jsvalue" where
  "set_property (Object ps) k v = Inr (Object (AList.update k v ps))"
| "set_property (Array xs ps) k v = Inr (Array xs (AList.update k v ps))"
| "set_property _ k v = Inl TypeError"

text \<open>The truthiness of a value of type \<open>string | null | undefined\<close>.\<close>

definition truthy :: "'a list option \<Rightarrow> bool" where
  "truthy s = (case s of None \<Rightarrow> False | Some v \<Rightarrow> v \<noteq> [])"

section \<open>The encryption module (\<open>lib/encryption\<close>)\<close>

subsection \<open>Loading the module: the key\<close>

definition DEV_KEY :: utf16 where
  "DEV_KEY = map of_char ''0123456789abcdef0123456789abcdef''"

text \<open>
  \<open>process.env.ENCRYPTION_KEY || "0123456789abcdef0123456789abcdef"\<close>, then the
  check of \<open>ENCRYPTION_KEY.length\<close>. The argument is the environment variable
  (\<open>None\<close> when it is not set); the result is the key the module keeps, or the error
  thrown while the module loads.
\<close>

definition load_ENCRYPTION_KEY :: "utf16 option \<Rightarrow> error + utf16" where
  "load_ENCRYPTION_KEY env_key =
     (let ENCRYPTION_KEY =
            (case env_key of
               None \<Rightarrow> DEV_KEY
             | Some k \<Rightarrow> if k = [] then DEV_KEY else k)
      in if length ENCRYPTION_KEY \<noteq> 32
         then Inl (Error ''ENCRYPTION_KEY must be exactly 32 characters long.'')
         else Inr ENCRYPTION_KEY)"

subsection \<open>UTF-8\<close>

text \<open>
  \<open>Buffer.from(s)\<close>, and what \<open>cipher.update(s, "utf8", ...)\<close> makes of its
  argument: the UTF-8 encoding of a JavaScript string. A code unit below
  \<open>0x80\<close> is one byte, one below \<open>0x800\<close> two, a surrogate pair four, any other code
  unit three; a surrogate without its partner is encoded as U+FFFD.
\<close>

fun Buffer_from :: "utf16 \<Rightarrow> buffer" where
  "Buffer_from [] = []"
| "Buffer_from (u # us) =
     (if u < 0x80 then ucast u # Buffer_from us
      else if u < 0x800 then
        (0xC0 OR ucast (drop_bit 6 u)) # (0x80 OR ucast (u AND 0x3F)) # Buffer_from us
      else if 0xD800 \<le> u \<and> u < 0xDC00 then
        (case us of
           [] \<Rightarrow> [0xEF, 0xBF, 0xBD]
         | v # vs \<Rightarrow>
             if 0xDC00 \<le> v \<and> v < 0xE000 then
               (let cp = 0x10000 + 0x400 * (unat u - 0xD800) + (unat v - 0xDC00)
                in [0xF0 OR of_nat (cp div 0x40000),
                    0x80 OR of_nat (cp div 0x1000 mod 0x40),
                    0x80 OR of_nat (cp div 0x40 mod 0x40),
                    0x80 OR of_nat (cp mod 0x40)] @ Buffer_from vs)
             else [0xEF, 0xBF, 0xBD] @ Buffer_from us)
      else if 0xDC00 \<le> u \<and> u < 0xE000 then [0xEF, 0xBF, 0xBD] @ Buffer_from us
      else (0xE0 OR ucast (drop_bit 12 u)) # (0x80 OR ucast (drop_bit 6 u AND 0x3F))
           # (0x80 OR ucast (u AND 0x3F)) # Buffer_from us)"

text \<open>
  The text that \<open>decipher.update(..., "utf8")\<close> and \<open>decipher.final("utf8")\<close>
  give for a sequence of bytes: its UTF-8 decoding. One, two and three bytes give one code
  unit, four bytes a surrogate pair. Bytes that are not UTF-8 are replaced by U+FFFD, one
  for each longest run that begins a well-formed sequence: a byte that cannot begin a
  sequence gives one, and so does a sequence cut short by a byte that cannot continue it
  (that byte is read again) or by the end of the input.
\<close>

fun toString_utf8 :: "buffer \<Rightarrow> utf16" where
  "toString_utf8 [] = []"
| "toString_utf8 (b # bs) =
     (let n = unat b
      in if n < 0x80 then of_nat n # toString_utf8 bs
         else if 0xC2 \<le> n \<and> n \<le> 0xDF then
           (case bs of
              [] \<Rightarrow> [0xFFFD]
            | b1 # bs1 \<Rightarrow>
                if 0x80 \<le> unat b1 \<and> unat b1 \<le> 0xBF
                then of_nat ((n - 0xC0) * 0x40 + (unat b1 - 0x80)) # toString_utf8 bs1
                else 0xFFFD # toString_utf8 bs)
         else if 0xE0 \<le> n \<and> n \<le> 0xEF then
           (case bs of
              [] \<Rightarrow> [0xFFFD]
            | b1 # bs1 \<Rightarrow>
                if (if n = 0xE0 then 0xA0 else 0x80) \<le> unat b1
                   \<and> unat b1 \<le> (if n = 0xED then 0x9F else 0xBF)
                then (case bs1 of
                        [] \<Rightarrow> [0xFFFD]
                      | b2 # bs2 \<Rightarrow>
                          if 0x80 \<le> unat b2 \<and> unat b2 \<le> 0xBF
                          then of_nat ((n - 0xE0) * 0x1000 + (unat b1 - 0x80) * 0x40
                                       + (unat b2 - 0x80)) # toString_utf8 bs2
                          else 0xFFFD # toString_utf8 bs1)
                else 0xFFFD # toString_utf8 bs)
         else if 0xF0 \<le> n \<and> n \<le> 0xF4 then
           (case bs of
              [] \<Rightarrow> [0xFFFD]
            | b1 # bs1 \<Rightarrow>
                if (if n = 0xF0 then 0x90 else 0x80) \<le> unat b1
                   \<and> unat b1 \<le> (if n = 0xF4 then 0x8F else 0xBF)
                then (case bs1 of
                        [] \<Rightarrow> [0xFFFD]
                      | b2 # bs2 \<Rightarrow>
                          if 0x80 \<le> unat b2 \<and> unat b2 \<le> 0xBF
                          then (case bs2 of
                                  [] \<Rightarrow> [0xFFFD]
                                | b3 # bs3 \<Rightarrow>
                                    if 0x80 \<le> unat b3 \<and> unat b3 \<le> 0xBF
                                    then (let cp = (n - 0xF0) * 0x40000 + (unat b1 - 0x80) * 0x1000
                                                   + (unat b2 - 0x80) * 0x40 + (unat b3 - 0x80)
                                                   - 0x10000
                                          in of_nat (0xD800 + cp div 0x400)
                                             # of_nat (0xDC00 + cp mod 0x400) # toString_utf8 bs3)
                                    else 0xFFFD # toString_utf8 bs2)
                          else 0xFFFD # toString_utf8 bs1)
                else 0xFFFD # toString_utf8 bs)
         else 0xFFFD # toString_utf8 bs)"


subsection \<open>Hex strings\<close>

definition hex_digit :: "nat \<Rightarrow> char" where
  "hex_digit n = ''0123456789abcdef'' ! n"

definition hex_val :: "char \<Rightarrow> nat option" where
  "hex_val c =
     (let n = (of_char c :: nat)
      in if 48 \<le> n \<and> n \<le> 57 then Some (n - 48)
         else if 97 \<le> n \<and> n \<le> 102 then Some (n - 87)
         else if 65 \<le> n \<and> n \<le> 70 then Some (n - 55)
         else None)"

text \<open>\<open>buf.toString("hex")\<close>: two lower-case digits for each byte.\<close>

definition toString_hex :: "buffer \<Rightarrow> string" where
  "toString_hex bs =
     concat (map (\<lambda>b. [hex_digit (unat b div 16), hex_digit (unat b mod 16)]) bs)"

text \<open>\<open>Buffer.from(s, "hex")\<close>: pairs of digits are decoded up to the first pair that
  is not hexadecimal; a last digit without a partner is dropped.\<close>

fun from_hex :: "string \<Rightarrow> buffer" where
  "from_hex (a # b # rest) =
     (case (hex_val a, hex_val b) of
        (Some x, Some y) \<Rightarrow> of_nat (16 * x + y) # from_hex rest
      | _ \<Rightarrow> [])"
| "from_hex _ = []"

text \<open>\<open>s.split(d)\<close> for a one-character separator: every piece between separators,
  the empty ones too.\<close>

fun split :: "char \<Rightarrow> string \<Rightarrow> string list" where
  "split d [] = [[]]"
| "split d (c # cs) =
     (if c = d then [] # split d cs
      else (case split d cs of
              p # ps \<Rightarrow> (c # p) # ps
            | [] \<Rightarrow> [[c]]))"

subsection \<open>The cipher of \<open>node:crypto\<close>\<close>

text \<open>
  AES-256-GCM is the library's, not the repository's. Galois/Counter Mode encrypts by
  adding a key stream to the text byte by byte and authenticates the ciphertext with a
  128-bit tag; both depend on the key and the IV. The block cipher and the hash that
  produce them stay parameters: \<open>keystream G key iv i\<close> is the \<open>i\<close>-th byte of
  the key stream and \<open>auth_tag G key iv c\<close> the tag of the ciphertext \<open>c\<close>.
\<close>

record gcm =
  keystream :: "buffer \<Rightarrow> buffer \<Rightarrow> nat \<Rightarrow> byte"
  auth_tag :: "buffer \<Rightarrow> buffer \<Rightarrow> buffer \<Rightarrow> 128 word"

definition gctr :: "gcm \<Rightarrow> buffer \<Rightarrow> buffer \<Rightarrow> buffer \<Rightarrow> buffer" where
  "gctr G key iv xs = map (\<lambda>i. xs ! i XOR keystream G key iv i) [0..<length xs]"

text \<open>The 16 bytes of a tag, most significant first.\<close>

definition tag_bytes :: "128 word \<Rightarrow> buffer" where
  "tag_bytes t = map (\<lambda>i. ucast (drop_bit (8 * (15 - i)) t)) [0..<16]"

text \<open>
  \<open>createCipheriv\<close>, \<open>update\<close>, \<open>final\<close> and \<open>getAuthTag\<close> together: a key that is
  not 32 bytes long is refused; otherwise the ciphertext and the tag come out. (The IV
  that \<open>encrypt\<close> passes is the result of \<open>crypto.randomBytes(16)\<close>.)
\<close>

definition gcm_seal :: "gcm \<Rightarrow> buffer \<Rightarrow> buffer \<Rightarrow> buffer \<Rightarrow> error + buffer \<times> buffer" where
  "gcm_seal G key iv p =
     (if length key \<noteq> 32 then Inl InvalidKeyLength
      else Inr (gctr G key iv p, tag_bytes (auth_tag G key iv (gctr G key iv p))))"

text \<open>
  \<open>createDecipheriv\<close>, \<open>setAuthTag\<close>, \<open>update(encryptedText, "hex", "utf8")\<close> and
  \<open>final("utf8")\<close>, in this order. \<open>createDecipheriv\<close> refuses an empty IV and then a
  key that is not 32 bytes long; \<open>setAuthTag\<close> accepts a tag at the lengths GCM allows
  (4, 8 and 12 to 16 bytes); \<open>update\<close> refuses a hex string with an odd number of
  digits and decodes any other up to its first pair that is not hexadecimal;
  \<open>final\<close> compares the tag with as many leading bytes of the computed tag, and only
  when they agree is the text released, as the UTF-8 decoding of the decrypted bytes.
\<close>

definition gcm_open :: "gcm \<Rightarrow> buffer \<Rightarrow> buffer \<Rightarrow> buffer \<Rightarrow> string \<Rightarrow> error + utf16" where
  "gcm_open G key iv authTag encryptedText =
     (if iv = [] then Inl InvalidIV
      else if length key \<noteq> 32 then Inl InvalidKeyLength
      else if length authTag \<notin> {4, 8, 12, 13, 14, 15, 16} then Inl InvalidTagLength
      else if odd (length encryptedText) then Inl InvalidArgValue
      else (let c = from_hex encryptedText
            in if take (length authTag) (tag_bytes (auth_tag G key iv c)) = authTag
               then Inr (toString_utf8 (gctr G key iv c))
               else Inl AuthenticationFailed))"

subsection \<open>\<open>encrypt\<close> and \<open>decrypt\<close>\<close>

text \<open>
  \<open>encrypt(text)\<close> returns \<open>{ encryptedData, iv }\<close>, here the pair, or throws what the
  cipher throws. The argument \<open>rnd\<close> is what \<open>crypto.randomBytes(16)\<close> returned.
\<close>

definition encrypt :: "gcm \<Rightarrow> utf16 \<Rightarrow> buffer \<Rightarrow> utf16 \<Rightarrow> error + string \<times> string" where
  "encrypt G ENCRYPTION_KEY rnd text =
     (let iv = rnd
      in case gcm_seal G (Buffer_from ENCRYPTION_KEY) iv (Buffer_from text) of
           Inl e \<Rightarrow> Inl e
         | Inr (c, t) \<Rightarrow>
             (let encrypted = toString_hex c;
                  authTag = toString_hex t
              in Inr (encrypted @ '':'' @ authTag, toString_hex iv)))"

text \<open>\<open>decrypt(encryptedData, ivHex)\<close> returns the decrypted text or throws.\<close>

definition decrypt :: "gcm \<Rightarrow> utf16 \<Rightarrow> string \<Rightarrow> string \<Rightarrow> error + utf16" where
  "decrypt G ENCRYPTION_KEY encryptedData ivHex =
     (case split CHR '':'' encryptedData of
        encryptedText # authTagHex # _ \<Rightarrow>
          if encryptedText = [] \<or> authTagHex = []
          then Inl (Error ''Invalid encrypted data format'')
          else (let iv = from_hex ivHex;
                    authTag = from_hex authTagHex
                in gcm_open G (Buffer_from ENCRYPTION_KEY) iv authTag encryptedText)
      | _ \<Rightarrow> Inl (Error ''Invalid encrypted data format''))"

section \<open>Calendar dates (the JavaScript \<open>Date\<close> values of \<open>performSync\<close>)\<close>

text \<open>
  \<open>performSync\<close> only reads the local calendar fields of a \<open>Date\<close> and only builds
  dates at local midnight, so a \<open>Date\<close> is the record of its local calendar fields:
  \<open>getMonth\<close> is zero-based (0 = January, 8 = September), \<open>getDate\<close> is the day of
  the month. Years are unbounded integers (JavaScript stops at year 275760).
\<close>

record Date =
  getFullYear :: int
  getMonth :: nat
  getDate :: nat

definition InLeapYear :: "int \<Rightarrow> bool" where
  "InLeapYear y = (y mod 4 = 0 \<and> (y mod 100 \<noteq> 0 \<or> y mod 400 = 0))"

definition DaysInMonth :: "int \<Rightarrow> nat \<Rightarrow> nat" where
  "DaysInMonth y m =
     (if m = 1 then (if InLeapYear y then 29 else 28)
      else if m = 3 \<or> m = 5 \<or> m = 8 \<or> m = 10 then 30
      else 31)"

text \<open>
  \<open>MakeDay\<close> carries a day of the month that lies past the end of the month \<open>m\<close>
  (\<open>m < 12\<close>) into the following months, as the \<open>Date\<close> constructor and \<open>setDate\<close>
  do; day 0 is the last day of the month before.
\<close>

function MakeDay :: "int \<Rightarrow> nat \<Rightarrow> nat \<Rightarrow> Date" where
  "MakeDay y m d =
     (if d = 0 then
        (let y' = (if m = 0 then y - 1 else y); m' = (if m = 0 then 11 else m - 1)
         in \<lparr>getFullYear = y', getMonth = m', getDate = DaysInMonth y' m'\<rparr>)
      else if DaysInMonth y m < d then
        MakeDay (if m = 11 then y + 1 else y) (if m = 11 then 0 else m + 1)
          (d - DaysInMonth y m)
      else \<lparr>getFullYear = y, getMonth = m, getDate = d\<rparr>)"
  by pat_completeness auto
termination
  by (relation "measure (\<lambda>(y, m, d). d)") (auto simp: DaysInMonth_def)

text \<open>
  \<open>new Date(year, monthIndex, day)\<close>: a year from 0 to 99 means 1900 + year, and a
  month index past 11 is carried into the year.
\<close>

definition new_Date :: "int \<Rightarrow> nat \<Rightarrow> nat \<Rightarrow> Date" where
  "new_Date y m d =
     (let yr = (if 0 \<le> y \<and> y \<le> 99 then 1900 + y else y)
      in MakeDay (yr + int (m div 12)) (m mod 12) d)"

definition setDate :: "Date \<Rightarrow> nat \<Rightarrow> Date" where
  "setDate D d = MakeDay (getFullYear D) (getMonth D) d"

text \<open>
  Lines 94 to 108 of \<open>performSync\<close>: the fetch window \<open>(from, to)\<close> computed from the
  current date. \<open>to\<close> is \<open>period.endDate\<close> itself, moved 14 days on by \<open>setDate\<close>;
  \<open>from\<close> is another object and keeps its value.
\<close>

definition fetch_window :: "Date \<Rightarrow> Date \<times> Date" where
  "fetch_window now =
     (let currentYear = getFullYear now;
          startYear = (if getMonth now < 8 then currentYear - 1 else currentYear);
          startDate = new_Date startYear 8 1;
          endDate = new_Date (startYear + 1) 7 30;
          from = startDate;
          to = setDate endDate (getDate endDate + 14)
      in (from, to))"

section \<open>Providers (\<open>providers/index\<close>)\<close>

text \<open>
  A provider as the server uses it: its \<open>id\<close>, its list of schools when it has one,
  and its two operations, which may throw. The provider classes are another package;
  the registry \<open>providers\<close> is a parameter of the server.
\<close>

record fetched =
  ev_hash :: "string option"
  ev_subject :: string
  ev_start :: int
  ev_end :: int
  ev_location :: "string option"
  ev_teacher :: "string option"
  ev_color :: "string option"

record provider =
  p_id :: string
  schools :: "string list option"
  validateCredentials :: "jsvalue \<Rightarrow> error + bool"
  getSchedule :: "jsvalue \<Rightarrow> Date \<Rightarrow> Date \<Rightarrow> error + fetched list"

definition getProvider :: "provider list \<Rightarrow> string \<Rightarrow> provider option" where
  "getProvider providers i = find (\<lambda>p. p_id p = i) providers"

section \<open>Storage and queue\<close>

text \<open>
  The rows of the tables \<open>timetable\<close> (with the credentials row it owns, as
  \<open>include: { credentials: true }\<close> returns it) and \<open>course\<close>. Timestamps are
  integers (milliseconds).
\<close>

record credential =
  encryptedCredentials :: string
  iv :: string

record timetable =
  t_id :: string
  userId :: string
  providerId :: string
  schoolId :: "utf16 option"
  syncInterval :: int
  lastSyncedAt :: "int option"
  credentials :: "credential option"

record course =
  timetableId :: string
  hash :: string
  subject :: string
  start :: int
  end_ :: int
  location :: "string option"
  teacher :: "string option"
  color :: "string option"

text \<open>
  The queue of the broker: its repeatable jobs and the jobs added to run once. The broker
  derives the key of a repeatable job from the job's name, the \<open>jobId\<close> it was added
  with and its interval, and keeps one repeatable job for each key. A repeatable job is
  given here as \<open>getRepeatableJobs()\<close> lists it, together with the data of the job:
  its \<open>key\<close>, its \<open>name\<close>, its interval and its \<open>id\<close>, which the listing leaves
  empty for the jobs that \<open>add\<close> registers (only an entry in the format of earlier
  versions of the broker is listed with an id).
\<close>

type_synonym repeat_key = "string \<times> string \<times> int"

record repeatable_job =
  rj_key :: repeat_key
  rj_name :: string
  rj_id :: "string option"
  rj_every :: int
  rj_timetableId :: string

record queue =
  repeatable :: "repeatable_job list"
  added :: "(string \<times> string) list"

text \<open>The calls that change something outside the process or hand secrets out, in the
  order in which they are made.\<close>

datatype call =
    Decrypt string string
  | GetSchedule string jsvalue Date Date
  | DeleteMany string int
  | CreateMany "course list"
  | UpdateLastSyncedAt string int
  | CreateTimetable timetable
  | RemoveRepeatableByKey repeat_key
  | QueueAdd string string

text \<open>
  The state the server works on: the two tables, the queue (\<open>None\<close> when Redis could
  not be reached at start-up and \<open>timetableQueue\<close> stayed \<open>null\<close>), and the log of
  calls.
\<close>

record world =
  timetables :: "timetable list"
  courses :: "course list"
  timetableQueue :: "queue option"
  calls :: "call list"

text \<open>
  What a run reads from outside: the provider registry, the cipher and the key the
  encryption module holds, \<open>JSON.parse\<close> and \<open>JSON.stringify\<close>, the clock
  (\<open>now\<close> is the first \<open>new Date()\<close> of \<open>performSync\<close>, \<open>now_ms\<close> the time of the
  second), the time value \<open>getTime\<close> of a local date in the host's time zone, the
  successive results of \<open>crypto.randomUUID()\<close>, the result of
  \<open>crypto.randomBytes(16)\<close> and the id the database gives a new timetable.
\<close>

record env =
  providers :: "provider list"
  cipher :: gcm
  ENCRYPTION_KEY :: utf16
  JSON_parse :: "utf16 \<Rightarrow> error + jsvalue"
  JSON_stringify :: "jsvalue \<Rightarrow> utf16"
  now :: Date
  now_ms :: int
  getTime :: "Date \<Rightarrow> int"
  randomUUID :: "nat \<Rightarrow> string"
  randomBytes :: buffer
  new_id :: string

subsection \<open>Storage operations\<close>

text \<open>\<open>prisma.timetable.findUnique({ where: { id }, include: { credentials: true } })\<close>\<close>

definition findUnique :: "string \<Rightarrow> world \<Rightarrow> timetable option" where
  "findUnique i w = find (\<lambda>t. t_id t = i) (timetables w)"

text \<open>\<open>prisma.course.deleteMany({ where: { timetableId, start: { gte: from } } })\<close>\<close>

definition deleteMany :: "string \<Rightarrow> int \<Rightarrow> world \<Rightarrow> world" where
  "deleteMany tid from w =
     w\<lparr>courses := filter (\<lambda>c. \<not> (timetableId c = tid \<and> from \<le> start c)) (courses w),
       calls := calls w @ [DeleteMany tid from]\<rparr>"

text \<open>\<open>prisma.course.createMany({ data })\<close>\<close>

definition createMany :: "course list \<Rightarrow> world \<Rightarrow> world" where
  "createMany rows w =
     w\<lparr>courses := courses w @ rows, calls := calls w @ [CreateMany rows]\<rparr>"

text \<open>\<open>prisma.timetable.update({ where: { id }, data: { lastSyncedAt } })\<close>\<close>

definition update_lastSyncedAt :: "string \<Rightarrow> int \<Rightarrow> world \<Rightarrow> world" where
  "update_lastSyncedAt tid t w =
     w\<lparr>timetables := map (\<lambda>r. if t_id r = tid then r\<lparr>lastSyncedAt := Some t\<rparr> else r) (timetables w),
       calls := calls w @ [UpdateLastSyncedAt tid t]\<rparr>"

text \<open>\<open>prisma.timetable.findFirst({ where: { userId, providerId, schoolId } })\<close>\<close>

definition findFirst :: "string \<Rightarrow> string \<Rightarrow> utf16 option \<Rightarrow> world \<Rightarrow> timetable option" where
  "findFirst u p s w =
     find (\<lambda>t. userId t = u \<and> providerId t = p \<and> schoolId t = s) (timetables w)"

text \<open>\<open>prisma.timetable.create({ data })\<close>\<close>

definition create_timetable :: "timetable \<Rightarrow> world \<Rightarrow> world" where
  "create_timetable t w =
     w\<lparr>timetables := timetables w @ [t], calls := calls w @ [CreateTimetable t]\<rparr>"

subsection \<open>Queue operations\<close>

definition removeRepeatableByKey :: "repeat_key \<Rightarrow> world \<Rightarrow> world" where
  "removeRepeatableByKey k w =
     w\<lparr>timetableQueue :=
         map_option (\<lambda>q. q\<lparr>repeatable := filter (\<lambda>j. rj_key j \<noteq> k) (repeatable q)\<rparr>)
           (timetableQueue w),
       calls := calls w @ [RemoveRepeatableByKey k]\<rparr>"

text \<open>
  \<open>timetableQueue.add(name, { timetableId }, { jobId, repeat: { every } })\<close>: the
  broker throws when the interval is 0 (it then finds neither an interval nor a pattern
  in the repeat options) and registers nothing; otherwise the job takes the place of the
  repeatable job with the same key, if there is one. The result is the error thrown, if
  any, with the state.
\<close>

definition add_repeat :: "string \<Rightarrow> string \<Rightarrow> string \<Rightarrow> int \<Rightarrow> world \<Rightarrow> error option \<times> world" where
  "add_repeat nm tid jobId every w =
     (if every = 0 then (Some InvalidRepeatOptions, w)
      else
        (let k = (nm, jobId, every);
             j = \<lparr>rj_key = k, rj_name = nm, rj_id = None, rj_every = every,
                  rj_timetableId = tid\<rparr>
         in (None,
             w\<lparr>timetableQueue :=
                  map_option (\<lambda>q. q\<lparr>repeatable := filter (\<lambda>j. rj_key j \<noteq> k) (repeatable q) @ [j]\<rparr>)
                    (timetableQueue w),
                calls := calls w @ [QueueAdd nm tid]\<rparr>)))"

text \<open>\<open>timetableQueue.add(name, { timetableId })\<close>\<close>

definition add_once :: "string \<Rightarrow> string \<Rightarrow> world \<Rightarrow> world" where
  "add_once nm tid w =
     w\<lparr>timetableQueue := map_option (\<lambda>q. q\<lparr>added := added q @ [(nm, tid)]\<rparr>) (timetableQueue w),
       calls := calls w @ [QueueAdd nm tid]\<rparr>"

text \<open>
  The loop that \<open>performSync\<close> and \<open>scheduleTimetableSync\<close> both run over the list
  \<open>getRepeatableJobs()\<close> returned: every job whose \<open>id\<close> is \<open>jobId\<close> is removed by
  its key.
\<close>

definition remove_jobs :: "string \<Rightarrow> repeatable_job list \<Rightarrow> world \<Rightarrow> world" where
  "remove_jobs jobId repeatableJobs w =
     fold (\<lambda>job w'. if rj_id job = Some jobId then removeRepeatableByKey (rj_key job) w' else w')
       repeatableJobs w"

section \<open>The queue module (\<open>queue/index\<close>)\<close>

text \<open>The two shapes of the object \<open>performSync\<close> returns:
  \<open>{ success: false, message }\<close> and \<open>{ success: true, coursesCount }\<close>.\<close>

datatype sync_result = Skipped string | Synced nat

text \<open>
  \<open>courses.map((c) => ({ timetableId, hash: c.hash || crypto.randomUUID(), ... }))\<close>:
  \<open>n\<close> counts the identifiers drawn so far.
\<close>

fun to_rows :: "(nat \<Rightarrow> string) \<Rightarrow> string \<Rightarrow> nat \<Rightarrow> fetched list \<Rightarrow> course list" where
  "to_rows uuid tid n [] = []"
| "to_rows uuid tid n (c # cs) =
     \<lparr>timetableId = tid,
      hash = (if truthy (ev_hash c) then the (ev_hash c) else uuid n),
      subject = ev_subject c, start = ev_start c, end_ = ev_end c,
      location = ev_location c, teacher = ev_teacher c, color = ev_color c\<rparr>
     # to_rows uuid tid (if truthy (ev_hash c) then n else Suc n) cs"

text \<open>\<open>if (timetable.schoolId) { credentials.schoolId = timetable.schoolId; }\<close>\<close>

definition with_schoolId :: "timetable \<Rightarrow> jsvalue \<Rightarrow> error + jsvalue" where
  "with_schoolId timetable creds =
     (if truthy (schoolId timetable)
      then set_property creds ''schoolId'' (String (the (schoolId timetable)))
      else Inr creds)"

text \<open>
  \<open>performSync(timetableId)\<close>. The result is what the function returns (\<open>Inr\<close>) or
  the error it throws again from its \<open>catch\<close> (\<open>Inl\<close>), with the state it leaves.
\<close>

definition performSync :: "env \<Rightarrow> string \<Rightarrow> world \<Rightarrow> (error + sync_result) \<times> world" where
  "performSync E tid w =
     (case timetableQueue w of
        None \<Rightarrow> (Inr (Skipped ''Queue not initialized''), w)
      | Some q \<Rightarrow>
     (case (case findUnique tid w of
              None \<Rightarrow> None
            | Some t \<Rightarrow> (case credentials t of None \<Rightarrow> None | Some c \<Rightarrow> Some (t, c))) of
        None \<Rightarrow>
          (Inr (Skipped ''Timetable not found''),
           remove_jobs (''sync-'' @ tid) (repeatable q) w)
      | Some (timetable, creds) \<Rightarrow>
     (case getProvider (providers E) (providerId timetable) of
        None \<Rightarrow> (Inl (Error (''Provider '' @ providerId timetable @ '' not found'')), w)
      | Some provider \<Rightarrow>
     (let w1 = w\<lparr>calls := calls w @ [Decrypt (encryptedCredentials creds) (iv creds)]\<rparr>
      in case decrypt (cipher E) (ENCRYPTION_KEY E) (encryptedCredentials creds) (iv creds) of
        Inl e \<Rightarrow> (Inl e, w1)
      | Inr decryptedCredsStr \<Rightarrow>
     (case JSON_parse E decryptedCredsStr of
        Inl e \<Rightarrow> (Inl e, w1)
      | Inr parsed \<Rightarrow>
     (case with_schoolId timetable parsed of
        Inl e \<Rightarrow> (Inl e, w1)
      | Inr credentials' \<Rightarrow>
     (let (from, to) = fetch_window (now E);
          w2 = w1\<lparr>calls := calls w1 @ [GetSchedule (p_id provider) credentials' from to]\<rparr>
      in case getSchedule provider credentials' from to of
        Inl e \<Rightarrow> (Inl e, w2)
      | Inr fetched_courses \<Rightarrow>
          (let w3 = deleteMany (t_id timetable) (getTime E from) w2;
               w4 = (if length fetched_courses > 0
                     then createMany (to_rows (randomUUID E) (t_id timetable) 0 fetched_courses) w3
                     else w3);
               w5 = update_lastSyncedAt (t_id timetable) (now_ms E) w4
           in (Inr (Synced (length fetched_courses)), w5)))))))))"

text \<open>\<open>scheduleTimetableSync(timetableId, intervalMinutes)\<close>: the error it throws, if
  any, with the state it leaves.\<close>

definition scheduleTimetableSync :: "string \<Rightarrow> int \<Rightarrow> world \<Rightarrow> error option \<times> world" where
  "scheduleTimetableSync tid intervalMinutes w =
     (case timetableQueue w of
        None \<Rightarrow> (None, w)
      | Some q \<Rightarrow>
          (let jobId = ''sync-'' @ tid;
               w1 = remove_jobs jobId (repeatable q) w
           in add_repeat ''sync'' tid jobId (intervalMinutes * 60 * 1000) w1))"

text \<open>\<open>triggerImmediateSync(timetableId)\<close>\<close>

definition triggerImmediateSync :: "string \<Rightarrow> world \<Rightarrow> world" where
  "triggerImmediateSync tid w =
     (case timetableQueue w of
        None \<Rightarrow> w
      | Some q \<Rightarrow> add_once ''sync-immediate'' tid w)"

text \<open>The repeatable jobs whose key was made from a job id: the registrations keyed
  by it. There is none when there is no queue.\<close>

definition registrations :: "string \<Rightarrow> world \<Rightarrow> repeatable_job list" where
  "registrations jobId w =
     (case timetableQueue w of
        None \<Rightarrow> []
      | Some q \<Rightarrow> filter (\<lambda>j. fst (snd (rj_key j)) = jobId) (repeatable q))"

section \<open>The route \<open>POST /api/timetables\<close>\<close>

text \<open>
  What the handler reads of a request: the session that the authentication library
  finds for it, and the fields of the JSON body (\<open>None\<close> for a field that is not
  there). The response is the status with the \<open>error\<close> code of the body, or the 202
  with the new timetable.
\<close>

record session =
  user_id :: string
  emailVerified :: bool

record request =
  req_session :: "session option"
  body_providerId :: "string option"
  body_schoolId :: "utf16 option"
  body_identifier :: "utf16 option"
  body_password :: "utf16 option"
  body_syncInterval :: "int option"

datatype response = Rejected nat string | Accepted timetable

text \<open>
  The code units that \<open>String.prototype.trim\<close> strips: the white space and the line
  terminators of ECMAScript (tab, line feed, vertical tab, form feed, carriage return,
  space, no-break space, U+1680, U+2000 to U+200A, U+2028, U+2029, U+202F, U+205F, U+3000
  and U+FEFF).
\<close>

definition white_space :: "16 word \<Rightarrow> bool" where
  "white_space c =
     (c \<in> set [0x09, 0x0A, 0x0B, 0x0C, 0x0D, 0x20, 0xA0, 0x1680, 0x2028, 0x2029, 0x202F,
                0x205F, 0x3000, 0xFEFF]
      \<or> 0x2000 \<le> c \<and> c \<le> 0x200A)"

text \<open>\<open>s.trim() !== ""\<close>: some character of \<open>s\<close> is not white space.\<close>

definition trim_nonempty :: "utf16 \<Rightarrow> bool" where
  "trim_nonempty s = (\<exists>c \<in> set s. \<not> white_space c)"

text \<open>\<open>schoolId && schoolId.trim() !== "" ? schoolId : null\<close>\<close>

definition normalizedSchoolId :: "utf16 option \<Rightarrow> utf16 option" where
  "normalizedSchoolId sid = (if truthy sid \<and> trim_nonempty (the sid) then sid else None)"

text \<open>
  The handler. Whatever is thrown inside its \<open>try\<close> block is answered with the status
  500; this includes what \<open>scheduleTimetableSync\<close> throws, after the timetable has been
  stored.
\<close>

definition post_timetables :: "env \<Rightarrow> request \<Rightarrow> world \<Rightarrow> response \<times> world" where
  "post_timetables E req w =
     (case req_session req of
        None \<Rightarrow> (Rejected 401 ''UNAUTHORIZED'', w)
      | Some s \<Rightarrow>
     if \<not> emailVerified s then (Rejected 403 ''EMAIL_NOT_VERIFIED'', w)
     else if \<not> truthy (body_providerId req) \<or> \<not> truthy (body_identifier req)
             \<or> \<not> truthy (body_password req)
     then (Rejected 400 ''BAD_REQUEST'', w)
     else
     (let pid = the (body_providerId req);
          identifier = the (body_identifier req);
          password = the (body_password req)
      in case getProvider (providers E) pid of
        None \<Rightarrow> (Rejected 400 ''UNKNOWN_PROVIDER'', w)
      | Some provider \<Rightarrow>
     if (case schools provider of None \<Rightarrow> False | Some ss \<Rightarrow> length ss > 0)
        \<and> \<not> truthy (body_schoolId req)
     then (Rejected 400 ''MISSING_SCHOOL'', w)
     else
     (case validateCredentials provider
             (Object [(''identifier'', String identifier), (''password'', String password),
                      (''schoolId'', (case body_schoolId req of
                                        None \<Rightarrow> Undefined
                                      | Some sid \<Rightarrow> String sid))]) of
        Inl e \<Rightarrow> (Rejected 500 ''INTERNAL_ERROR'', w)
      | Inr isValid \<Rightarrow>
     if \<not> isValid then (Rejected 401 ''INVALID_CREDENTIALS'', w)
     else
     (let credsJson = JSON_stringify E
            (Object [(''identifier'', String identifier), (''password'', String password)])
      in case encrypt (cipher E) (ENCRYPTION_KEY E) (randomBytes E) credsJson of
        Inl e \<Rightarrow> (Rejected 500 ''INTERNAL_ERROR'', w)
      | Inr (encryptedData, iv') \<Rightarrow>
     (let sid = normalizedSchoolId (body_schoolId req)
      in case findFirst (user_id s) pid sid w of
        Some existingTimetable \<Rightarrow> (Rejected 400 ''ALREADY_EXISTS'', w)
      | None \<Rightarrow>
          (let timetable =
                 \<lparr>t_id = new_id E, userId = user_id s, providerId = pid,
                  schoolId = sid,
                  syncInterval = (case body_syncInterval req of None \<Rightarrow> 60 | Some i \<Rightarrow> i),
                  lastSyncedAt = None,
                  credentials = Some \<lparr>encryptedCredentials = encryptedData, iv = iv'\<rparr>\<rparr>;
               w1 = create_timetable timetable w;
               w2 = triggerImmediateSync (t_id timetable) w1
           in case scheduleTimetableSync (t_id timetable) (syncInterval timetable) w2 of
                (Some e, w3) \<Rightarrow> (Rejected 500 ''INTERNAL_ERROR'', w3)
              | (None, w3) \<Rightarrow> (Accepted timetable, w3)))))))"

text \<open>The owner, provider and school of a timetable, and the invariant that no two rows
  share them.\<close>

definition triple :: "timetable \<Rightarrow> string \<times> string \<times> utf16 option" where
  "triple t = (userId t, providerId t, schoolId t)"

definition one_per_triple :: "world \<Rightarrow> bool" where
  "one_per_triple w = distinct (map triple (timetables w))"

section \<open>Notions the statements use\<close>

text \<open>The calls a run of \<open>performSync\<close> makes: what it appends to the log.\<close>

definition run_calls :: "env \<Rightarrow> string \<Rightarrow> world \<Rightarrow> call list" where
  "run_calls E tid w = drop (length (calls w)) (calls (snd (performSync E tid w)))"

text \<open>Flipping bit \<open>j\<close> of byte \<open>i\<close> of a buffer, and of the ciphertext part or the
  tag part of a stored \<open>encryptedData\<close> string.\<close>

definition flip_bit_at :: "nat \<Rightarrow> nat \<Rightarrow> buffer \<Rightarrow> buffer" where
  "flip_bit_at i j bs = bs[i := flip_bit j (bs ! i)]"




text \<open>Reading an own property of an object or array.\<close>

fun get_property :: "jsvalue \<Rightarrow> string \<Rightarrow> jsvalue option" where
  "get_property (Object ps) k = map_of ps k"
| "get_property (Array xs ps) k = map_of ps k"
| "get_property _ k = None"

text \<open>
  The row that \<open>courses.map\<close> makes of a fetched event (lines 122 to 134): the fields
  of the event under the timetable of the run, with the hash of the event when it has
  one and an identifier drawn from \<open>crypto.randomUUID\<close> otherwise.
\<close>

definition row_of :: "(nat \<Rightarrow> string) \<Rightarrow> string \<Rightarrow> fetched \<Rightarrow> course \<Rightarrow> bool" where
  "row_of uuid tid c r =
     (r = \<lparr>timetableId = tid, hash = hash r, subject = ev_subject c, start = ev_start c,
           end_ = ev_end c, location = ev_location c, teacher = ev_teacher c,
           color = ev_color c\<rparr>
      \<and> (if truthy (ev_hash c) then hash r = the (ev_hash c) else hash r \<in> range uuid))"

text \<open>
  The school of every stored timetable is as \<open>POST /api/timetables\<close>, the only code
  that writes it, normalises it: \<open>null\<close>, or a string with a character that is not
  white space.
\<close>

definition normalized_schools :: "world \<Rightarrow> bool" where
  "normalized_schools w =
     list_all (\<lambda>t. normalizedSchoolId (schoolId t) = schoolId t) (timetables w)"

section \<open>A small instance\<close>

text \<open>
  One concrete server state and environment, on which the theorems below are exercised:
  a stand-in cipher (its tag is the exclusive or of the ciphertext bytes), a provider \<open>wigor\<close>
  that returns two events (one without a hash), one timetable \<open>t1\<close> of user \<open>u1\<close>
  whose credentials are the encryption of \<open>{}\<close>, three stored courses and the
  repeatable job that \<open>scheduleTimetableSync\<close> registered for \<open>t1\<close> with an interval
  of 60 minutes. The clock reads 1 March 2024.
\<close>

definition demo_gcm :: gcm where
  "demo_gcm =
     \<lparr>keystream = (\<lambda>k v i. of_nat (length k + length v + i)),
      auth_tag = (\<lambda>k v c. foldr (\<lambda>b t. ucast b XOR t) c 0)\<rparr>"

definition demo_events :: "fetched list" where
  "demo_events =
     [\<lparr>ev_hash = Some ''h1'', ev_subject = ''Maths'', ev_start = 20240302, ev_end = 20240303,
       ev_location = None, ev_teacher = None, ev_color = None\<rparr>,
      \<lparr>ev_hash = None, ev_subject = ''Physics'', ev_start = 20240304, ev_end = 20240305,
       ev_location = Some ''B12'', ev_teacher = None, ev_color = None\<rparr>]"

definition demo_provider :: provider where
  "demo_provider =
     \<lparr>p_id = ''wigor'', schools = Some [''epsi''],
      validateCredentials = (\<lambda>c. Inr True),
      getSchedule = (\<lambda>c f t. Inr demo_events)\<rparr>"

definition demo_env :: env where
  "demo_env =
     \<lparr>providers = [demo_provider],
      cipher = demo_gcm,
      ENCRYPTION_KEY = DEV_KEY,
      JSON_parse = (\<lambda>b. if b = map of_char ''{}'' then Inr (Object []) else Inl SyntaxError),
      JSON_stringify = (\<lambda>v. map of_char ''{}''),
      now = \<lparr>getFullYear = 2024, getMonth = 2, getDate = 1\<rparr>,
      now_ms = 20240301,
      getTime = (\<lambda>d. getFullYear d * 10000 + int (getMonth d) * 100 + int (getDate d)),
      randomUUID = (\<lambda>n. ''uuid-'' @ replicate n CHR ''i''),
      randomBytes = replicate 16 7,
      new_id = ''t2''\<rparr>"

text \<open>The same environment with another answer of the provider.\<close>

definition demo_env_provider :: "(jsvalue \<Rightarrow> Date \<Rightarrow> Date \<Rightarrow> error + fetched list) \<Rightarrow> env" where
  "demo_env_provider g = demo_env\<lparr>providers := [demo_provider\<lparr>getSchedule := g\<rparr>]\<rparr>"

definition demo_credential :: credential where
  "demo_credential =
     \<lparr>encryptedCredentials = ''4b4c:00000000000000000000000000000007'',
      iv = ''07070707070707070707070707070707''\<rparr>"

definition demo_timetable :: timetable where
  "demo_timetable =
     \<lparr>t_id = ''t1'', userId = ''u1'', providerId = ''wigor'',
      schoolId = Some (map of_char ''epsi''),
      syncInterval = 60, lastSyncedAt = None, credentials = Some demo_credential\<rparr>"

definition demo_course :: "string \<Rightarrow> string \<Rightarrow> int \<Rightarrow> course" where
  "demo_course tid h s =
     \<lparr>timetableId = tid, hash = h, subject = ''Old'', start = s, end_ = s + 1,
      location = None, teacher = None, color = None\<rparr>"

definition demo_job :: repeatable_job where
  "demo_job =
     \<lparr>rj_key = (''sync'', ''sync-t1'', 3600000), rj_name = ''sync'', rj_id = None,
      rj_every = 3600000, rj_timetableId = ''t1''\<rparr>"

definition demo_world :: world where
  "demo_world =
     \<lparr>timetables = [demo_timetable],
      courses = [demo_course ''t1'' ''a'' 20230731, demo_course ''t1'' ''b'' 20230801,
                 demo_course ''t9'' ''c'' 20240101],
      timetableQueue = Some \<lparr>repeatable = [demo_job], added = []\<rparr>,
      calls = []\<rparr>"

text \<open>
  The state before the timetable \<open>t1\<close> was added (no timetable, no course of \<open>t1\<close>
  and an empty queue), and the state after \<open>DELETE /api/timetables/t1\<close>: the timetable
  is gone, with its credentials and courses, and the queue is as it was.
\<close>

definition demo_world_before :: world where
  "demo_world_before =
     \<lparr>timetables = [], courses = [demo_course ''t9'' ''c'' 20240101],
      timetableQueue = Some \<lparr>repeatable = [], added = []\<rparr>, calls = []\<rparr>"

definition demo_world_deleted :: world where
  "demo_world_deleted =
     demo_world\<lparr>timetables := [], courses := [demo_course ''t9'' ''c'' 20240101]\<rparr>"

definition demo_request :: request where
  "demo_request =
     \<lparr>req_session = Some \<lparr>user_id = ''u1'', emailVerified = True\<rparr>,
      body_providerId = Some ''wigor'', body_schoolId = Some (map of_char ''epsi''),
      body_identifier = Some (map of_char ''alice''),
      body_password = Some (map of_char ''secret''),
      body_syncInterval = None\<rparr>"

section \<open>Lemmas about the model\<close>

subsection \<open>The run of \<open>performSync\<close>\<close>

lemma findUnique_Some: "findUnique tid w = Some t \<Longrightarrow> t_id t = tid \<and> t \<in> set (timetables w)"
  by (auto simp: findUnique_def find_Some_iff)

lemma remove_jobs_fields:
  "timetables (remove_jobs j js w) = timetables w \<and> courses (remove_jobs j js w) = courses w
   \<and> calls (remove_jobs j js w) =
       calls w @ map RemoveRepeatableByKey (map rj_key (filter (\<lambda>x. rj_id x = Some j) js))
   \<and> timetableQueue (remove_jobs j js w) =
       map_option (\<lambda>q. q\<lparr>repeatable :=
           filter (\<lambda>x. rj_key x \<notin> rj_key ` {y \<in> set js. rj_id y = Some j}) (repeatable q)\<rparr>)
         (timetableQueue w)"
proof (induction js arbitrary: w)
  case Nil
  show ?case by (cases "timetableQueue w") (simp_all add: remove_jobs_def)
next
  case (Cons a js)
  have step: "remove_jobs j (a # js) w =
      remove_jobs j js (if rj_id a = Some j then removeRepeatableByKey (rj_key a) w else w)"
    by (simp add: remove_jobs_def)
  show ?case
  proof (cases "rj_id a = Some j")
    case True
    have "{y \<in> set (a # js). rj_id y = Some j} = insert a {y \<in> set js. rj_id y = Some j}"
      using True by auto
    then show ?thesis
      unfolding step using True Cons[of "removeRepeatableByKey (rj_key a) w"]
      by (cases "timetableQueue w") (auto simp: removeRepeatableByKey_def intro!: filter_cong)
  next
    case False
    have "{y \<in> set (a # js). rj_id y = Some j} = {y \<in> set js. rj_id y = Some j}"
      using False by auto
    then show ?thesis
      unfolding step using False Cons[of w] by simp
  qed
qed

lemma run_calls_eq:
  "run_calls E tid w =
   (case timetableQueue w of
      None \<Rightarrow> []
    | Some q \<Rightarrow>
   (case (case findUnique tid w of
            None \<Rightarrow> None
          | Some t \<Rightarrow> (case credentials t of None \<Rightarrow> None | Some c \<Rightarrow> Some (t, c))) of
      None \<Rightarrow> map RemoveRepeatableByKey
                (map rj_key (filter (\<lambda>x. rj_id x = Some (''sync-'' @ tid)) (repeatable q)))
    | Some (t, c) \<Rightarrow>
   (case getProvider (providers E) (providerId t) of
      None \<Rightarrow> []
    | Some p \<Rightarrow>
      Decrypt (encryptedCredentials c) (iv c) #
   (case decrypt (cipher E) (ENCRYPTION_KEY E) (encryptedCredentials c) (iv c) of
      Inl e \<Rightarrow> []
    | Inr s \<Rightarrow>
   (case JSON_parse E s of
      Inl e \<Rightarrow> []
    | Inr parsed \<Rightarrow>
   (case with_schoolId t parsed of
      Inl e \<Rightarrow> []
    | Inr cr \<Rightarrow>
      GetSchedule (p_id p) cr (fst (fetch_window (now E))) (snd (fetch_window (now E))) #
   (case getSchedule p cr (fst (fetch_window (now E))) (snd (fetch_window (now E))) of
      Inl e \<Rightarrow> []
    | Inr fs \<Rightarrow>
      DeleteMany tid (getTime E (fst (fetch_window (now E)))) #
      (if fs \<noteq> [] then [CreateMany (to_rows (randomUUID E) tid 0 fs)] else []) @
      [UpdateLastSyncedAt tid (now_ms E)])))))))"
  by (auto simp: run_calls_def performSync_def Let_def split_beta remove_jobs_fields
        deleteMany_def createMany_def update_lastSyncedAt_def
      dest!: findUnique_Some split: option.splits sum.splits)

lemma to_rows_props:
  "length (to_rows u tid n fs) = length fs \<and> (\<forall>r \<in> set (to_rows u tid n fs). timetableId r = tid)"
  by (induction fs arbitrary: n) auto

lemma to_rows_fields: "list_all2 (row_of u tid) fs (to_rows u tid n fs)"
  by (induction fs arbitrary: n) (simp_all add: row_of_def)

lemma reaches_provider_ex:
  assumes "GetSchedule pid cr f t' \<in> set (run_calls E tid w)"
  shows "\<exists>q t c p s parsed.
    timetableQueue w = Some q \<and> findUnique tid w = Some t \<and> credentials t = Some c \<and>
    getProvider (providers E) (providerId t) = Some p \<and> pid = p_id p \<and>
    decrypt (cipher E) (ENCRYPTION_KEY E) (encryptedCredentials c) (iv c) = Inr s \<and>
    JSON_parse E s = Inr parsed \<and> with_schoolId t parsed = Inr cr \<and>
    f = fst (fetch_window (now E)) \<and> t' = snd (fetch_window (now E))"
proof (cases "timetableQueue w")
  case None
  with assms show ?thesis by (simp add: run_calls_eq)
next
  case (Some q)
  show ?thesis
  proof (cases "findUnique tid w")
    case None
    with assms Some show ?thesis by (auto simp: run_calls_eq)
  next
    case t: (Some t)
    show ?thesis
    proof (cases "credentials t")
      case None
      with assms Some t show ?thesis by (auto simp: run_calls_eq)
    next
      case c: (Some c)
      show ?thesis
      proof (cases "getProvider (providers E) (providerId t)")
        case None
        with assms Some t c show ?thesis by (simp add: run_calls_eq)
      next
        case p: (Some p)
        from assms Some t c p show ?thesis
          by (simp add: run_calls_eq split: sum.splits if_splits) metis
      qed
    qed
  qed
qed

lemma reaches_provider:
  assumes "GetSchedule pid cr f t' \<in> set (run_calls E tid w)"
  obtains q t c p s parsed where
    "timetableQueue w = Some q" "findUnique tid w = Some t" "credentials t = Some c"
    "getProvider (providers E) (providerId t) = Some p" "pid = p_id p"
    "decrypt (cipher E) (ENCRYPTION_KEY E) (encryptedCredentials c) (iv c) = Inr s"
    "JSON_parse E s = Inr parsed" "with_schoolId t parsed = Inr cr"
    "f = fst (fetch_window (now E))" "t' = snd (fetch_window (now E))"
  using reaches_provider_ex[OF assms] by blast

lemma performSync_after_provider:
  assumes "timetableQueue w = Some q" "findUnique tid w = Some t" "credentials t = Some c"
    "getProvider (providers E) (providerId t) = Some p"
    "decrypt (cipher E) (ENCRYPTION_KEY E) (encryptedCredentials c) (iv c) = Inr s"
    "JSON_parse E s = Inr parsed" "with_schoolId t parsed = Inr cr"
  shows "performSync E tid w =
    (let f = fst (fetch_window (now E)); t' = snd (fetch_window (now E));
         w2 = w\<lparr>calls := calls w @ [Decrypt (encryptedCredentials c) (iv c),
                                       GetSchedule (p_id p) cr f t']\<rparr>
     in case getSchedule p cr f t' of
          Inl e \<Rightarrow> (Inl e, w2)
        | Inr fs \<Rightarrow>
            (Inr (Synced (length fs)),
             update_lastSyncedAt tid (now_ms E)
               ((if fs \<noteq> [] then createMany (to_rows (randomUUID E) tid 0 fs) else id)
                  (deleteMany tid (getTime E f) w2))))"
  using assms findUnique_Some[OF assms(2)]
  by (auto simp: performSync_def Let_def split_beta split: sum.splits)

lemma findUnique_update:
  assumes "findUnique tid w = Some t" "timetables w2 = timetables w"
  shows "findUnique tid (update_lastSyncedAt tid ts w2) = Some (t\<lparr>lastSyncedAt := Some ts\<rparr>)"
proof -
  have "find (\<lambda>r. t_id r = tid) xs = Some t \<Longrightarrow>
        find (\<lambda>r. t_id r = tid) (map (\<lambda>r. if t_id r = tid then r\<lparr>lastSyncedAt := Some ts\<rparr> else r) xs)
          = Some (t\<lparr>lastSyncedAt := Some ts\<rparr>)" for xs
    by (induction xs) (auto split: if_splits)
  then show ?thesis using assms by (simp add: findUnique_def update_lastSyncedAt_def)
qed

lemma performSync_from_call:
  assumes "GetSchedule pid cr f t' \<in> set (run_calls E tid w)"
      and "findUnique tid w = Some t"
      and "getProvider (providers E) (providerId t) = Some p"
  obtains a b where
    "pid = p_id p" "f = fst (fetch_window (now E))" "t' = snd (fetch_window (now E))"
    "performSync E tid w =
      (let w2 = w\<lparr>calls := calls w @ [Decrypt a b, GetSchedule pid cr f t']\<rparr>
       in case getSchedule p cr f t' of
            Inl e \<Rightarrow> (Inl e, w2)
          | Inr fs \<Rightarrow>
              (Inr (Synced (length fs)),
               update_lastSyncedAt tid (now_ms E)
                 ((if fs \<noteq> [] then createMany (to_rows (randomUUID E) tid 0 fs) else id)
                    (deleteMany tid (getTime E f) w2))))"
proof -
  from assms(1) obtain q t0 c p0 s parsed where h:
    "timetableQueue w = Some q" "findUnique tid w = Some t0" "credentials t0 = Some c"
    "getProvider (providers E) (providerId t0) = Some p0" "pid = p_id p0"
    "decrypt (cipher E) (ENCRYPTION_KEY E) (encryptedCredentials c) (iv c) = Inr s"
    "JSON_parse E s = Inr parsed" "with_schoolId t0 parsed = Inr cr"
    "f = fst (fetch_window (now E))" "t' = snd (fetch_window (now E))"
    by (rule reaches_provider)
  from h(2) assms(2) have t0: "t0 = t" by simp
  with h(4) assms(3) have p0: "p0 = p" by simp
  have "performSync E tid w =
      (let w2 = w\<lparr>calls := calls w @ [Decrypt (encryptedCredentials c) (iv c),
                                          GetSchedule pid cr f t']\<rparr>
       in case getSchedule p cr f t' of
            Inl e \<Rightarrow> (Inl e, w2)
          | Inr fs \<Rightarrow>
              (Inr (Synced (length fs)),
               update_lastSyncedAt tid (now_ms E)
                 ((if fs \<noteq> [] then createMany (to_rows (randomUUID E) tid 0 fs) else id)
                    (deleteMany tid (getTime E f) w2))))"
    unfolding h(9) h(10) h(5) p0
    using performSync_after_provider[OF h(1) h(2) h(3) h(4) h(6) h(7) h(8)]
    unfolding p0 by (simp add: Let_def)
  with h(5) h(9) h(10) p0 show ?thesis
    using that[of "encryptedCredentials c" "iv c"] by blast
qed

lemma reaches_reconciliation:
  assumes "DeleteMany d T \<in> set (run_calls E tid w)"
  shows "\<exists>t p pid cr f t' fs.
    findUnique tid w = Some t \<and> getProvider (providers E) (providerId t) = Some p \<and>
    GetSchedule pid cr f t' \<in> set (run_calls E tid w) \<and> getSchedule p cr f t' = Inr fs \<and>
    d = tid \<and> T = getTime E f"
proof (cases "timetableQueue w")
  case None
  with assms show ?thesis by (simp add: run_calls_eq)
next
  case (Some q)
  show ?thesis
  proof (cases "findUnique tid w")
    case None
    with assms Some show ?thesis by (auto simp: run_calls_eq)
  next
    case t: (Some t)
    show ?thesis
    proof (cases "credentials t")
      case None
      with assms Some t show ?thesis by (auto simp: run_calls_eq)
    next
      case c: (Some c)
      show ?thesis
      proof (cases "getProvider (providers E) (providerId t)")
        case None
        with assms Some t c show ?thesis by (simp add: run_calls_eq)
      next
        case p: (Some p)
        from assms Some t c p show ?thesis
          by (auto simp add: run_calls_eq split: sum.splits if_splits) metis
      qed
    qed
  qed
qed

lemma get_set_property:
  assumes "set_property v k x = Inr v'"
  shows "get_property v' k = Some x \<and> (\<forall>k'. k' \<noteq> k \<longrightarrow> get_property v' k' = get_property v k')"
  using assms by (cases v) (auto simp: update_conv')

lemma not_found_run:
  assumes "timetableQueue w = Some q"
      and "findUnique tid w = None \<or> (\<exists>t. findUnique tid w = Some t \<and> credentials t = None)"
  shows "performSync E tid w =
           (Inr (Skipped ''Timetable not found''), remove_jobs (''sync-'' @ tid) (repeatable q) w)"
  using assms by (auto simp: performSync_def)

lemma missing_timetable_run:
  assumes "timetableQueue w = Some q"
      and "findUnique tid w = None \<or> (\<exists>t. findUnique tid w = Some t \<and> credentials t = None)"
  shows "fst (performSync E tid w) = Inr (Skipped ''Timetable not found'')
       \<and> timetables (snd (performSync E tid w)) = timetables w
       \<and> courses (snd (performSync E tid w)) = courses w
       \<and> run_calls E tid w
           = map RemoveRepeatableByKey
               (map rj_key (filter (\<lambda>j. rj_id j = Some (''sync-'' @ tid)) (repeatable q)))"
  unfolding not_found_run[OF assms] run_calls_def
  by (simp add: remove_jobs_fields)

text \<open>
  The loop of \<open>performSync\<close> and \<open>scheduleTimetableSync\<close> removes nothing when the
  listing gives no job an id, which is the case when every job was registered by
  \<open>add\<close>.
\<close>

lemma remove_jobs_no_ids:
  assumes "\<forall>j \<in> set js. rj_id j = None"
  shows "remove_jobs jobId js w = w"
proof -
  have "fold (\<lambda>job w'. if rj_id job = Some jobId then removeRepeatableByKey (rj_key job) w' else w')
          js w = w"
    using assms by (induction js arbitrary: w) simp_all
  then show ?thesis by (simp add: remove_jobs_def)
qed

lemma missing_timetable_jobs_stay:
  assumes "timetableQueue w = Some q"
      and "findUnique tid w = None \<or> (\<exists>t. findUnique tid w = Some t \<and> credentials t = None)"
      and "\<forall>j \<in> set (repeatable q). rj_id j = None"
  shows "performSync E tid w = (Inr (Skipped ''Timetable not found''), w)"
  unfolding not_found_run[OF assms(1,2)] remove_jobs_no_ids[OF assms(3)] ..

lemma scheduleTimetableSync_no_ids:
  assumes "timetableQueue w = Some q" and "\<forall>j \<in> set (repeatable q). rj_id j = None"
  shows "scheduleTimetableSync tid i w = add_repeat ''sync'' tid (''sync-'' @ tid) (i * 60 * 1000) w"
  using assms(1) by (simp add: scheduleTimetableSync_def Let_def remove_jobs_no_ids[OF assms(2)])

lemma performSync_schools:
  "map schoolId (timetables (snd (performSync E tid w))) = map schoolId (timetables w)"
  by (auto simp: performSync_def Let_def split_beta remove_jobs_fields deleteMany_def
        createMany_def update_lastSyncedAt_def comp_def
      split: option.splits sum.splits intro!: map_cong)

subsection \<open>Hex strings, \<open>split\<close> and the cipher\<close>
















lemma encrypt_eq:
  assumes "length (Buffer_from key) = 32"
  shows "encrypt G key rnd plain =
           Inr (toString_hex (gctr G (Buffer_from key) rnd (Buffer_from plain)) @ CHR '':'' #
                  toString_hex (tag_bytes (auth_tag G (Buffer_from key) rnd
                                             (gctr G (Buffer_from key) rnd (Buffer_from plain)))),
                toString_hex rnd)"
  using assms by (simp add: encrypt_def gcm_seal_def Let_def)




lemma length_Buffer_from_ascii:
  "\<forall>u \<in> set k. u < 0x80 \<Longrightarrow> length (Buffer_from k) = length k"
  by (induction k) simp_all


text \<open>
  The check at load counts characters, the cipher bytes: 32 times the letter U+00E9 pass
  the check, are 64 bytes, and \<open>encrypt\<close> throws on them.
\<close>

lemma non_ascii_key_passes_check:
  "load_ENCRYPTION_KEY (Some (replicate 32 0xE9)) = Inr (replicate 32 0xE9)
   \<and> length (Buffer_from (replicate 32 0xE9)) = 64
   \<and> encrypt G (replicate 32 0xE9) rnd plain = Inl InvalidKeyLength"
proof -
  have l: "length (Buffer_from (replicate 32 0xE9)) = 64" by code_simp
  show ?thesis
    using l by (simp add: load_ENCRYPTION_KEY_def encrypt_def gcm_seal_def)
qed




lemma gctr_flip: "gctr G k v (flip_bit_at i j c) = flip_bit_at i j (gctr G k v c)"
proof (rule nth_equalityI)
  show "length (gctr G k v (flip_bit_at i j c)) = length (flip_bit_at i j (gctr G k v c))"
    by (simp add: gctr_def flip_bit_at_def)
next
  fix n assume "n < length (gctr G k v (flip_bit_at i j c))"
  then have n: "n < length c" by (simp add: gctr_def flip_bit_at_def)
  show "gctr G k v (flip_bit_at i j c) ! n = flip_bit_at i j (gctr G k v c) ! n"
  proof (cases "n = i")
    case True
    with n show ?thesis
      by (simp add: gctr_def flip_bit_at_def flip_bit_eq_xor xor.assoc xor.commute xor.left_commute)
  next
    case False
    with n show ?thesis by (simp add: gctr_def flip_bit_at_def)
  qed
qed





text \<open>
  A tag is compared at the length it is given with. When the hex string of a stored tag
  is cut short by a character that is not a hex digit, at 4, 8 or 12 to 15 bytes,
  \<open>decrypt\<close> compares those bytes only: here the last four bytes of the tag of the
  instance are replaced and the text is still returned. (The statements below flip bits
  of the 16 bytes of the tag, not of the characters that spell them.)
\<close>

lemma tag_cut_short_is_accepted:
  "decrypt demo_gcm DEV_KEY ''4b4c:000000000000000000000000zz00ffff''
     ''07070707070707070707070707070707'' = Inr (map of_char ''{}'')"
  by code_simp




subsection \<open>UTF-8: decoding what was encoded\<close>






























subsection \<open>The route \<open>POST /api/timetables\<close>\<close>

lemma triggerImmediateSync_tables:
  "timetables (triggerImmediateSync tid w) = timetables w"
  "courses (triggerImmediateSync tid w) = courses w"
  by (auto simp: triggerImmediateSync_def add_once_def split: option.splits)

lemma scheduleTimetableSync_tables:
  "timetables (snd (scheduleTimetableSync tid i w)) = timetables w"
  "courses (snd (scheduleTimetableSync tid i w)) = courses w"
  by (auto simp: scheduleTimetableSync_def add_repeat_def Let_def remove_jobs_fields
      split: option.splits)

lemma findFirst_None:
  "findFirst u p s w = None \<Longrightarrow> (u, p, s) \<notin> triple ` set (timetables w)"
  by (auto simp: findFirst_def find_None_iff triple_def)

lemma findFirst_exists:
  assumes "t \<in> set (timetables w)" "userId t = u" "providerId t = p" "schoolId t = s"
  shows "\<exists>t'. findFirst u p s w = Some t'"
  using assms by (cases "findFirst u p s w") (auto simp: findFirst_def find_None_iff)

text \<open>
  The two outcomes of the handler: a rejection that leaves the state as it was, or a new
  timetable for a triple that was free. In the second case the answer is the status 202,
  or the status 500 when \<open>scheduleTimetableSync\<close> threw after the timetable was stored.
\<close>

lemma post_timetables_stored:
  assumes "triple T \<notin> triple ` set (timetables w)"
  shows "\<exists>r w'.
     (case scheduleTimetableSync (t_id T) (syncInterval T)
             (triggerImmediateSync (t_id T) (create_timetable T w)) of
        (Some e, w3) \<Rightarrow> (Rejected 500 ''INTERNAL_ERROR'', w3)
      | (None, w3) \<Rightarrow> (Accepted T, w3)) = (r, w')
     \<and> (r = Accepted T \<or> r = Rejected 500 ''INTERNAL_ERROR'')
     \<and> timetables w' = timetables w @ [T] \<and> courses w' = courses w"
proof -
  define w2 where "w2 = triggerImmediateSync (t_id T) (create_timetable T w)"
  obtain e w3 where sch: "scheduleTimetableSync (t_id T) (syncInterval T) w2 = (e, w3)"
    by (cases "scheduleTimetableSync (t_id T) (syncInterval T) w2")
  have tt: "timetables w3 = timetables w @ [T]" "courses w3 = courses w"
    using scheduleTimetableSync_tables[of "t_id T" "syncInterval T" w2] sch
    by (simp_all add: w2_def triggerImmediateSync_tables create_timetable_def)
  show ?thesis
    unfolding w2_def[symmetric] sch using tt by (cases e) simp_all
qed

lemma post_timetables_cases:
  "(\<exists>st e. post_timetables E req w = (Rejected st e, w))
   \<or> (\<exists>r t w'. post_timetables E req w = (r, w')
        \<and> (r = Accepted t \<or> r = Rejected 500 ''INTERNAL_ERROR'')
        \<and> triple t \<notin> triple ` set (timetables w) \<and> timetables w' = timetables w @ [t]
        \<and> courses w' = courses w
        \<and> (\<exists>s. req_session req = Some s
             \<and> triple t = (user_id s, the (body_providerId req),
                           normalizedSchoolId (body_schoolId req))))"
proof (cases "req_session req")
  case None
  then have "post_timetables E req w = (Rejected 401 ''UNAUTHORIZED'', w)"
    by (simp add: post_timetables_def)
  then show ?thesis by blast
next
  case s: (Some s)
  show ?thesis
  proof (cases "emailVerified s \<and> truthy (body_providerId req) \<and> truthy (body_identifier req)
                \<and> truthy (body_password req)")
    case False
    with s have "\<exists>st e. post_timetables E req w = (Rejected st e, w)"
      by (auto simp: post_timetables_def)
    then show ?thesis by blast
  next
    case v: True
    show ?thesis
    proof (cases "getProvider (providers E) (the (body_providerId req))")
      case None
      with s v have "post_timetables E req w = (Rejected 400 ''UNKNOWN_PROVIDER'', w)"
        by (simp add: post_timetables_def Let_def)
      then show ?thesis by blast
    next
      case p: (Some p)
      show ?thesis
      proof (cases "(case schools p of None \<Rightarrow> False | Some ss \<Rightarrow> length ss > 0)
                    \<and> \<not> truthy (body_schoolId req)")
        case True
        with s v p have "post_timetables E req w = (Rejected 400 ''MISSING_SCHOOL'', w)"
          by (simp add: post_timetables_def Let_def)
        then show ?thesis by blast
      next
        case ms: False
        show ?thesis
        proof (cases "validateCredentials p
             (Object [(''identifier'', String (the (body_identifier req))),
                      (''password'', String (the (body_password req))),
                      (''schoolId'', (case body_schoolId req of
                                        None \<Rightarrow> Undefined
                                      | Some sid \<Rightarrow> String sid))])")
          case (Inl e)
          with s v p ms have "post_timetables E req w = (Rejected 500 ''INTERNAL_ERROR'', w)"
            by (auto simp: post_timetables_def Let_def)
          then show ?thesis by blast
        next
          case vc: (Inr isValid)
          show ?thesis
          proof (cases isValid)
            case False
            with s v p ms vc
            have "post_timetables E req w = (Rejected 401 ''INVALID_CREDENTIALS'', w)"
              by (auto simp: post_timetables_def Let_def)
            then show ?thesis by blast
          next
            case iv: True
            show ?thesis
            proof (cases "encrypt (cipher E) (ENCRYPTION_KEY E) (randomBytes E)
                    (JSON_stringify E
                       (Object [(''identifier'', String (the (body_identifier req))),
                                (''password'', String (the (body_password req)))]))")
              case (Inl e)
              with s v p ms vc iv
              have "post_timetables E req w = (Rejected 500 ''INTERNAL_ERROR'', w)"
                by (auto simp: post_timetables_def Let_def)
              then show ?thesis by blast
            next
              case (Inr pr)
              obtain ed iv' where pr: "pr = (ed, iv')" by (cases pr)
              note en = Inr[unfolded pr]
              show ?thesis
              proof (cases "findFirst (user_id s) (the (body_providerId req))
                              (normalizedSchoolId (body_schoolId req)) w")
                case (Some a)
                with s v p ms vc iv en
                have "post_timetables E req w = (Rejected 400 ''ALREADY_EXISTS'', w)"
                  by (auto simp: post_timetables_def Let_def)
                then show ?thesis by blast
              next
                case ff: None
                define T where "T = \<lparr>t_id = new_id E, userId = user_id s,
                    providerId = the (body_providerId req),
                    schoolId = normalizedSchoolId (body_schoolId req),
                    syncInterval = (case body_syncInterval req of None \<Rightarrow> 60 | Some i \<Rightarrow> i),
                    lastSyncedAt = None,
                    credentials = Some \<lparr>encryptedCredentials = ed, iv = iv'\<rparr>\<rparr>"
                have tr: "triple T = (user_id s, the (body_providerId req),
                                      normalizedSchoolId (body_schoolId req))"
                  by (simp add: T_def triple_def)
                have fr: "triple T \<notin> triple ` set (timetables w)"
                  unfolding tr by (rule findFirst_None[OF ff])
                from s v p ms vc iv en ff
                have eq: "post_timetables E req w =
                   (case scheduleTimetableSync (t_id T) (syncInterval T)
                           (triggerImmediateSync (t_id T) (create_timetable T w)) of
                      (Some e, w3) \<Rightarrow> (Rejected 500 ''INTERNAL_ERROR'', w3)
                    | (None, w3) \<Rightarrow> (Accepted T, w3))"
                  unfolding T_def by (auto simp: post_timetables_def Let_def)
                from post_timetables_stored[OF fr] obtain r w' where
                  "post_timetables E req w = (r, w')"
                  "r = Accepted T \<or> r = Rejected 500 ''INTERNAL_ERROR''"
                  "timetables w' = timetables w @ [T]" "courses w' = courses w"
                  unfolding eq by blast
                with s tr fr show ?thesis by auto
              qed
            qed
          qed
        qed
      qed
    qed
  qed
qed

lemma normalizedSchoolId_idem:
  "normalizedSchoolId (normalizedSchoolId x) = normalizedSchoolId x"
  by (simp add: normalizedSchoolId_def truthy_def)

lemma normalized_schools_iff:
  "normalized_schools w \<longleftrightarrow> (\<forall>t \<in> set (timetables w). normalizedSchoolId (schoolId t) = schoolId t)"
  by (simp add: normalized_schools_def list_all_iff)

lemma post_timetables_normalized:
  assumes "normalized_schools w"
  shows "normalized_schools (snd (post_timetables E req w))"
  using post_timetables_cases[of E req w] assms
  by (auto simp: normalized_schools_iff triple_def normalizedSchoolId_idem)

lemma performSync_normalized:
  assumes "normalized_schools w"
  shows "normalized_schools (snd (performSync E tid w))"
proof -
  have "normalized_schools v \<longleftrightarrow> list_all (\<lambda>s. normalizedSchoolId s = s) (map schoolId (timetables v))"
    for v by (simp add: normalized_schools_def list_all_iff)
  then show ?thesis using assms performSync_schools[of E tid w] by simp
qed

lemma post_timetables_duplicate:
  assumes "req_session req = Some s" "emailVerified s"
    "truthy (body_providerId req)" "truthy (body_identifier req)" "truthy (body_password req)"
    "getProvider (providers E) (the (body_providerId req)) = Some p"
    "schools p = None \<or> schools p = Some [] \<or> truthy (body_schoolId req)"
    "validateCredentials p
       (Object [(''identifier'', String (the (body_identifier req))),
                (''password'', String (the (body_password req))),
                (''schoolId'', (case body_schoolId req of
                                  None \<Rightarrow> Undefined
                                | Some sid \<Rightarrow> String sid))]) = Inr True"
    "t \<in> set (timetables w)"
    "triple t = (user_id s, the (body_providerId req), normalizedSchoolId (body_schoolId req))"
    "length (Buffer_from (ENCRYPTION_KEY E)) = 32"
  shows "post_timetables E req w = (Rejected 400 ''ALREADY_EXISTS'', w)"
proof -
  from assms(10) have "userId t = user_id s" "providerId t = the (body_providerId req)"
    "schoolId t = normalizedSchoolId (body_schoolId req)"
    by (simp_all add: triple_def)
  from findFirst_exists[OF assms(9) this] obtain t' where
    "findFirst (user_id s) (the (body_providerId req)) (normalizedSchoolId (body_schoolId req)) w = Some t'"
    by blast
  with assms(1-8) show ?thesis
    by (auto simp: post_timetables_def Let_def encrypt_eq[OF assms(11)] split: option.splits)
qed

subsection \<open>The fetch window\<close>

lemma fetch_window_eq:
  assumes "1970 \<le> getFullYear d"
  shows "fetch_window d =
     (\<lparr>getFullYear = (if getMonth d < 8 then getFullYear d - 1 else getFullYear d),
        getMonth = 8, getDate = 1\<rparr>,
      \<lparr>getFullYear = (if getMonth d < 8 then getFullYear d - 1 else getFullYear d) + 1,
        getMonth = 8, getDate = 13\<rparr>)"
  using assms
  by (simp add: fetch_window_def new_Date_def setDate_def Let_def DaysInMonth_def)

lemma GetSchedule_in_run_calls:
  assumes "GetSchedule pid c f t \<in> set (run_calls E tid w)"
  shows "(f, t) = fetch_window (now E)"
  using assms unfolding run_calls_eq
  by (auto split: option.splits sum.splits if_splits)

section \<open>The claims\<close>

text \<open>
  C1. When a run of \<open>performSync\<close> reaches reconciliation (it calls \<open>deleteMany\<close>),
  the timetable of the run is stored, its provider is registered, and that provider has
  answered the call of the run, made for the fetch window, with a list of events. The
  deletion is for the timetable
  of the run and the start of the fetch window; it is made before the insertion
  (\<open>createMany\<close>, when there are events) and before \<open>lastSyncedAt\<close> is written. The
  rows inserted are the rows of the fetched events, one for each event and in their
  order: the fields of the event, with its hash or else a generated identifier.
  Afterwards the table holds the old courses of other timetables and the old courses of
  this timetable that start strictly before the window start, unchanged and in their
  order, followed by those rows: every old course of this timetable that starts at or
  after the window start is gone.
\<close>

theorem reconciliation_replaces_window:
  assumes "DeleteMany d T \<in> set (run_calls E tid w)"
  shows "d = tid \<and> T = getTime E (fst (fetch_window (now E)))
       \<and> (\<exists>t p a b cr f t' fs rows.
            findUnique tid w = Some t
          \<and> getProvider (providers E) (providerId t) = Some p
          \<and> f = fst (fetch_window (now E)) \<and> t' = snd (fetch_window (now E))
          \<and> getSchedule p cr f t' = Inr fs
          \<and> rows = to_rows (randomUUID E) tid 0 fs
          \<and> list_all2 (row_of (randomUUID E) tid) fs rows
          \<and> run_calls E tid w =
              [Decrypt a b, GetSchedule (p_id p) cr f t', DeleteMany tid T]
              @ (if fs = [] then [] else [CreateMany rows])
              @ [UpdateLastSyncedAt tid (now_ms E)]
          \<and> fst (performSync E tid w) = Inr (Synced (length fs))
          \<and> courses (snd (performSync E tid w))
              = filter (\<lambda>c. timetableId c \<noteq> tid \<or> start c < T) (courses w) @ rows)
       \<and> filter (\<lambda>c. timetableId c \<noteq> tid) (courses (snd (performSync E tid w)))
           = filter (\<lambda>c. timetableId c \<noteq> tid) (courses w)"
proof -
  from reaches_reconciliation[OF assms] obtain t p pid cr f t' fs where h:
    "findUnique tid w = Some t" "getProvider (providers E) (providerId t) = Some p"
    "GetSchedule pid cr f t' \<in> set (run_calls E tid w)" "getSchedule p cr f t' = Inr fs"
    "d = tid" "T = getTime E f"
    by blast
  from h(3) h(1) h(2) obtain a b where
    g: "pid = p_id p" "f = fst (fetch_window (now E))" "t' = snd (fetch_window (now E))" and
    ps: "performSync E tid w =
      (let w2 = w\<lparr>calls := calls w @ [Decrypt a b, GetSchedule pid cr f t']\<rparr>
       in case getSchedule p cr f t' of
            Inl e \<Rightarrow> (Inl e, w2)
          | Inr fs \<Rightarrow>
              (Inr (Synced (length fs)),
               update_lastSyncedAt tid (now_ms E)
                 ((if fs \<noteq> [] then createMany (to_rows (randomUUID E) tid 0 fs) else id)
                    (deleteMany tid (getTime E f) w2))))"
    by (rule performSync_from_call)
  define rows where "rows = to_rows (randomUUID E) tid 0 fs"
  have keep: "filter (\<lambda>c. \<not> (timetableId c = tid \<and> T \<le> start c)) (courses w)
              = filter (\<lambda>c. timetableId c \<noteq> tid \<or> start c < T) (courses w)"
    by (rule filter_cong) auto
  have fields: "list_all2 (row_of (randomUUID E) tid) fs rows"
    unfolding rows_def by (rule to_rows_fields)
  have r: "fst (performSync E tid w) = Inr (Synced (length fs))"
    using ps h(4) by simp
  have cs: "courses (snd (performSync E tid w))
              = filter (\<lambda>c. timetableId c \<noteq> tid \<or> start c < T) (courses w) @ rows"
    using ps h(4) h(6) keep
    by (cases fs)
       (simp_all add: rows_def update_lastSyncedAt_def createMany_def deleteMany_def)
  have rc: "run_calls E tid w =
              [Decrypt a b, GetSchedule (p_id p) cr f t', DeleteMany tid T]
              @ (if fs = [] then [] else [CreateMany rows])
              @ [UpdateLastSyncedAt tid (now_ms E)]"
    using ps h(4) h(6) g(1)
    by (cases fs)
       (simp_all add: rows_def run_calls_def update_lastSyncedAt_def createMany_def
          deleteMany_def)
  have own: "filter (\<lambda>c. timetableId c \<noteq> tid) rows = []"
    using to_rows_props[of "randomUUID E" tid 0 fs] by (auto simp: rows_def filter_empty_conv)
  have other: "filter (\<lambda>c. timetableId c \<noteq> tid) (courses (snd (performSync E tid w)))
           = filter (\<lambda>c. timetableId c \<noteq> tid) (courses w)"
    unfolding cs using own by (auto intro: filter_cong)
  have ex: "\<exists>t p a b cr f t' fs rows.
            findUnique tid w = Some t
          \<and> getProvider (providers E) (providerId t) = Some p
          \<and> f = fst (fetch_window (now E)) \<and> t' = snd (fetch_window (now E))
          \<and> getSchedule p cr f t' = Inr fs
          \<and> rows = to_rows (randomUUID E) tid 0 fs
          \<and> list_all2 (row_of (randomUUID E) tid) fs rows
          \<and> run_calls E tid w =
              [Decrypt a b, GetSchedule (p_id p) cr f t', DeleteMany tid T]
              @ (if fs = [] then [] else [CreateMany rows])
              @ [UpdateLastSyncedAt tid (now_ms E)]
          \<and> fst (performSync E tid w) = Inr (Synced (length fs))
          \<and> courses (snd (performSync E tid w))
              = filter (\<lambda>c. timetableId c \<noteq> tid \<or> start c < T) (courses w) @ rows"
    apply (intro exI conjI)
             apply (rule h(1))
            apply (rule h(2))
           apply (rule g(2))
          apply (rule g(3))
         apply (rule h(4))
        apply (rule rows_def)
       apply (rule fields)
      apply (rule rc)
     apply (rule r)
    apply (rule cs)
    done
  have T: "T = getTime E (fst (fetch_window (now E)))" using h(6) g(2) by simp
  from h(5) T ex other show ?thesis by (intro conjI)
qed

theorem reconciliation_replaces_window_witness:
  "DeleteMany ''t1'' 20230801 \<in> set (run_calls demo_env ''t1'' demo_world)
   \<and> 20230801 = getTime demo_env (fst (fetch_window (now demo_env)))
   \<and> courses (snd (performSync demo_env ''t1'' demo_world))
       = [demo_course ''t1'' ''a'' 20230731, demo_course ''t9'' ''c'' 20240101,
          \<lparr>timetableId = ''t1'', hash = ''h1'', subject = ''Maths'', start = 20240302,
           end_ = 20240303, location = None, teacher = None, color = None\<rparr>,
          \<lparr>timetableId = ''t1'', hash = ''uuid-'', subject = ''Physics'', start = 20240304,
           end_ = 20240305, location = Some ''B12'', teacher = None, color = None\<rparr>]
   \<and> filter (\<lambda>c. timetableId c \<noteq> ''t1'') (courses (snd (performSync demo_env ''t1'' demo_world)))
       = [demo_course ''t9'' ''c'' 20240101]"
proof -
  have h: "DeleteMany ''t1'' 20230801 \<in> set (run_calls demo_env ''t1'' demo_world)"
    by code_simp
  have k: "filter (\<lambda>c. timetableId c \<noteq> ''t1'') (courses demo_world) = [demo_course ''t9'' ''c'' 20240101]"
    by code_simp
  have k2: "filter (\<lambda>c. timetableId c \<noteq> ''t1'' \<or> start c < 20230801) (courses demo_world)
            = [demo_course ''t1'' ''a'' 20230731, demo_course ''t9'' ''c'' 20240101]"
    by code_simp
  have fu: "findUnique ''t1'' demo_world = Some demo_timetable" by code_simp
  have gp: "getProvider (providers demo_env) (providerId demo_timetable) = Some demo_provider"
    by (simp add: getProvider_def demo_env_def demo_provider_def demo_timetable_def)
  have gs: "getSchedule demo_provider cr f t' = Inr demo_events" for cr f t'
    by (simp add: demo_provider_def)
  have rw: "to_rows (randomUUID demo_env) ''t1'' 0 demo_events
            = [\<lparr>timetableId = ''t1'', hash = ''h1'', subject = ''Maths'', start = 20240302,
                end_ = 20240303, location = None, teacher = None, color = None\<rparr>,
               \<lparr>timetableId = ''t1'', hash = ''uuid-'', subject = ''Physics'', start = 20240304,
                end_ = 20240305, location = Some ''B12'', teacher = None, color = None\<rparr>]"
    by code_simp
  note th = reconciliation_replaces_window[OF h]
  from th have a: "20230801 = getTime demo_env (fst (fetch_window (now demo_env)))"
    by blast
  from th obtain t p cr f t' fs rows where r:
    "findUnique ''t1'' demo_world = Some t"
    "getProvider (providers demo_env) (providerId t) = Some p"
    "getSchedule p cr f t' = Inr fs"
    "rows = to_rows (randomUUID demo_env) ''t1'' 0 fs"
    "courses (snd (performSync demo_env ''t1'' demo_world))
       = filter (\<lambda>c. timetableId c \<noteq> ''t1'' \<or> start c < 20230801) (courses demo_world) @ rows"
    by blast
  from r(1) fu have "t = demo_timetable" by simp
  with r(2) gp have "p = demo_provider" by simp
  with r(3) gs have "fs = demo_events" by simp
  with r(4) rw have rows: "rows = [\<lparr>timetableId = ''t1'', hash = ''h1'', subject = ''Maths'', start = 20240302,
                end_ = 20240303, location = None, teacher = None, color = None\<rparr>,
               \<lparr>timetableId = ''t1'', hash = ''uuid-'', subject = ''Physics'', start = 20240304,
                end_ = 20240305, location = Some ''B12'', teacher = None, color = None\<rparr>]" by simp
  have c: "courses (snd (performSync demo_env ''t1'' demo_world))
       = [demo_course ''t1'' ''a'' 20230731, demo_course ''t9'' ''c'' 20240101,
          \<lparr>timetableId = ''t1'', hash = ''h1'', subject = ''Maths'', start = 20240302,
           end_ = 20240303, location = None, teacher = None, color = None\<rparr>,
          \<lparr>timetableId = ''t1'', hash = ''uuid-'', subject = ''Physics'', start = 20240304,
           end_ = 20240305, location = Some ''B12'', teacher = None, color = None\<rparr>]"
    unfolding r(5) k2 rows by simp
  from th have b: "filter (\<lambda>c. timetableId c \<noteq> ''t1'') (courses (snd (performSync demo_env ''t1'' demo_world)))
       = filter (\<lambda>c. timetableId c \<noteq> ''t1'') (courses demo_world)"
    by blast
  from h a c b[unfolded k] show ?thesis by (intro conjI)
qed




text \<open>
  C3. Whenever \<open>performSync\<close> calls the provider, and the clock reads a year from 1970
  on (the \<open>Date\<close> constructor reads a year from 0 to 99 as 1900 + year), the window it
  passes starts on 1 September of the previous year when the current month is January to
  August (month index below 8) and of the current year otherwise, and ends on 30 August
  of the year after the start plus 14 days, which is 13 September. For 1 March 2024 the
  window starts on 1 September 2023, for 1 October 2024 on 1 September 2024.
\<close>

theorem fetch_window_academic_year:
  assumes "1970 \<le> getFullYear (now E)"
      and "GetSchedule pid c f t \<in> set (run_calls E tid w)"
  shows "f = \<lparr>getFullYear = (if getMonth (now E) < 8 then getFullYear (now E) - 1
                               else getFullYear (now E)),
              getMonth = 8, getDate = 1\<rparr>
       \<and> t = setDate \<lparr>getFullYear = getFullYear f + 1, getMonth = 7, getDate = 30\<rparr> (30 + 14)
       \<and> t = \<lparr>getFullYear = getFullYear f + 1, getMonth = 8, getDate = 13\<rparr>
       \<and> fst (fetch_window \<lparr>getFullYear = 2024, getMonth = 2, getDate = 1\<rparr>)
           = \<lparr>getFullYear = 2023, getMonth = 8, getDate = 1\<rparr>
       \<and> fst (fetch_window \<lparr>getFullYear = 2024, getMonth = 9, getDate = 1\<rparr>)
           = \<lparr>getFullYear = 2024, getMonth = 8, getDate = 1\<rparr>"
proof -
  have "(f, t) = fetch_window (now E)"
    using assms(2) by (rule GetSchedule_in_run_calls)
  then have ft: "f = fst (fetch_window (now E))" "t = snd (fetch_window (now E))"
    by (metis fst_conv, metis snd_conv)
  show ?thesis
    unfolding ft fetch_window_eq[OF assms(1)]
    by (simp add: fetch_window_eq setDate_def DaysInMonth_def)
qed

theorem fetch_window_academic_year_witness:
  "1970 \<le> getFullYear (now demo_env)
   \<and> GetSchedule ''wigor'' (Object [(''schoolId'', String (map of_char ''epsi''))])
        \<lparr>getFullYear = 2023, getMonth = 8, getDate = 1\<rparr>
        \<lparr>getFullYear = 2024, getMonth = 8, getDate = 13\<rparr>
       \<in> set (run_calls demo_env ''t1'' demo_world)
   \<and> \<lparr>getFullYear = 2024, getMonth = 8, getDate = 13\<rparr>
       = setDate \<lparr>getFullYear = 2024, getMonth = 7, getDate = 30\<rparr> (30 + 14)"
proof -
  have h1: "1970 \<le> getFullYear (now demo_env)" by code_simp
  have h2: "GetSchedule ''wigor'' (Object [(''schoolId'', String (map of_char ''epsi''))])
        \<lparr>getFullYear = 2023, getMonth = 8, getDate = 1\<rparr>
        \<lparr>getFullYear = 2024, getMonth = 8, getDate = 13\<rparr>
       \<in> set (run_calls demo_env ''t1'' demo_world)" by code_simp
  from fetch_window_academic_year[OF h1 h2] h1 h2 show ?thesis by simp
qed

text \<open>
  C4. When the run calls the provider and the provider returns the empty list,
  \<open>performSync\<close> returns \<open>{ success: true, coursesCount: 0 }\<close> and throws nothing; the
  stored courses of the timetable that start at or after the window start are gone and
  nothing is inserted; and \<open>lastSyncedAt\<close> of the timetable is the time of the run, not
  \<open>null\<close>. (A provider that throws gives the thrown error instead: C5.)
\<close>

theorem empty_schedule_is_success:
  assumes "GetSchedule pid cr f t' \<in> set (run_calls E tid w)"
      and "findUnique tid w = Some t"
      and "getProvider (providers E) (providerId t) = Some p"
      and "getSchedule p cr f t' = Inr []"
  shows "fst (performSync E tid w) = Inr (Synced 0)
       \<and> (\<forall>e. fst (performSync E tid w) \<noteq> Inl e)
       \<and> courses (snd (performSync E tid w))
           = filter (\<lambda>c. \<not> (timetableId c = tid \<and> getTime E f \<le> start c)) (courses w)
       \<and> findUnique tid (snd (performSync E tid w)) = Some (t\<lparr>lastSyncedAt := Some (now_ms E)\<rparr>)
       \<and> (\<exists>a b. run_calls E tid w =
             [Decrypt a b, GetSchedule pid cr f t', DeleteMany tid (getTime E f),
              UpdateLastSyncedAt tid (now_ms E)])"
proof -
  from assms(1,2,3) obtain a b where
    "pid = p_id p" "f = fst (fetch_window (now E))" "t' = snd (fetch_window (now E))" and
    ps: "performSync E tid w =
      (let w2 = w\<lparr>calls := calls w @ [Decrypt a b, GetSchedule pid cr f t']\<rparr>
       in case getSchedule p cr f t' of
            Inl e \<Rightarrow> (Inl e, w2)
          | Inr fs \<Rightarrow>
              (Inr (Synced (length fs)),
               update_lastSyncedAt tid (now_ms E)
                 ((if fs \<noteq> [] then createMany (to_rows (randomUUID E) tid 0 fs) else id)
                    (deleteMany tid (getTime E f) w2))))"
    by (rule performSync_from_call)
  define w3 where "w3 = deleteMany tid (getTime E f)
                          (w\<lparr>calls := calls w @ [Decrypt a b, GetSchedule pid cr f t']\<rparr>)"
  have eq: "performSync E tid w = (Inr (Synced 0), update_lastSyncedAt tid (now_ms E) w3)"
    using ps assms(4) by (simp add: w3_def)
  have tt: "timetables w3 = timetables w" by (simp add: w3_def deleteMany_def)
  have fu: "findUnique tid (update_lastSyncedAt tid (now_ms E) w3)
            = Some (t\<lparr>lastSyncedAt := Some (now_ms E)\<rparr>)"
    using assms(2) tt by (rule findUnique_update)
  have rc: "run_calls E tid w =
             [Decrypt a b, GetSchedule pid cr f t', DeleteMany tid (getTime E f),
              UpdateLastSyncedAt tid (now_ms E)]"
    by (simp add: run_calls_def eq w3_def update_lastSyncedAt_def deleteMany_def)
  have cs: "courses (update_lastSyncedAt tid (now_ms E) w3)
            = filter (\<lambda>c. \<not> (timetableId c = tid \<and> getTime E f \<le> start c)) (courses w)"
    by (simp add: w3_def update_lastSyncedAt_def deleteMany_def)
  show ?thesis
    unfolding eq using fu rc cs by simp
qed

theorem empty_schedule_is_success_witness:
  "GetSchedule ''wigor'' (Object [(''schoolId'', String (map of_char ''epsi''))])
       \<lparr>getFullYear = 2023, getMonth = 8, getDate = 1\<rparr>
       \<lparr>getFullYear = 2024, getMonth = 8, getDate = 13\<rparr>
     \<in> set (run_calls (demo_env_provider (\<lambda>c f t. Inr [])) ''t1'' demo_world)
   \<and> findUnique ''t1'' demo_world = Some demo_timetable
   \<and> fst (performSync (demo_env_provider (\<lambda>c f t. Inr [])) ''t1'' demo_world) = Inr (Synced 0)
   \<and> courses (snd (performSync (demo_env_provider (\<lambda>c f t. Inr [])) ''t1'' demo_world))
       = [demo_course ''t1'' ''a'' 20230731, demo_course ''t9'' ''c'' 20240101]
   \<and> findUnique ''t1'' (snd (performSync (demo_env_provider (\<lambda>c f t. Inr [])) ''t1'' demo_world))
       = Some (demo_timetable\<lparr>lastSyncedAt := Some 20240301\<rparr>)"
proof -
  let ?g = "\<lambda>(c::jsvalue) (f::Date) (t::Date). (Inr [] :: error + fetched list)"
  let ?E = "demo_env_provider ?g"
  let ?f = "\<lparr>getFullYear = 2023, getMonth = 8, getDate = 1\<rparr>"
  have h1: "GetSchedule ''wigor'' (Object [(''schoolId'', String (map of_char ''epsi''))]) ?f
       \<lparr>getFullYear = 2024, getMonth = 8, getDate = 13\<rparr>
     \<in> set (run_calls ?E ''t1'' demo_world)" by code_simp
  have h2: "findUnique ''t1'' demo_world = Some demo_timetable" by code_simp
  have h3: "getProvider (providers ?E) (providerId demo_timetable)
            = Some (demo_provider\<lparr>getSchedule := ?g\<rparr>)"
    by (simp add: getProvider_def demo_env_provider_def demo_provider_def demo_timetable_def)
  have h4: "getSchedule (demo_provider\<lparr>getSchedule := ?g\<rparr>)
              (Object [(''schoolId'', String (map of_char ''epsi''))]) ?f
              \<lparr>getFullYear = 2024, getMonth = 8, getDate = 13\<rparr> = Inr []"
    by simp
  have k: "filter (\<lambda>c. \<not> (timetableId c = ''t1'' \<and> getTime ?E ?f \<le> start c)) (courses demo_world)
           = [demo_course ''t1'' ''a'' 20230731, demo_course ''t9'' ''c'' 20240101]"
    by code_simp
  have n: "now_ms ?E = 20240301" by code_simp
  from empty_schedule_is_success[OF h1 h2 h3 h4] h1 h2 show ?thesis
    unfolding k n by simp
qed

text \<open>
  C5. When the run calls the provider and the call throws, \<open>performSync\<close> throws the
  same error, and the tables and the queue are as before: no course is deleted or
  inserted and \<open>lastSyncedAt\<close> is not written. The only calls of the run are the
  decryption and the call of the provider.
\<close>

theorem provider_failure_changes_nothing:
  assumes "GetSchedule pid cr f t' \<in> set (run_calls E tid w)"
      and "findUnique tid w = Some t"
      and "getProvider (providers E) (providerId t) = Some p"
      and "getSchedule p cr f t' = Inl e"
  shows "fst (performSync E tid w) = Inl e
       \<and> timetables (snd (performSync E tid w)) = timetables w
       \<and> courses (snd (performSync E tid w)) = courses w
       \<and> timetableQueue (snd (performSync E tid w)) = timetableQueue w
       \<and> (\<exists>a b. run_calls E tid w = [Decrypt a b, GetSchedule pid cr f t'])"
proof -
  from assms(1) obtain q t0 c p0 s parsed where h:
    "timetableQueue w = Some q" "findUnique tid w = Some t0" "credentials t0 = Some c"
    "getProvider (providers E) (providerId t0) = Some p0" "pid = p_id p0"
    "decrypt (cipher E) (ENCRYPTION_KEY E) (encryptedCredentials c) (iv c) = Inr s"
    "JSON_parse E s = Inr parsed" "with_schoolId t0 parsed = Inr cr"
    "f = fst (fetch_window (now E))" "t' = snd (fetch_window (now E))"
    by (rule reaches_provider)
  from h(2) assms(2) have t0: "t0 = t" by simp
  with h(4) assms(3) have p0: "p0 = p" by simp
  have ps: "performSync E tid w =
      (Inl e, w\<lparr>calls := calls w @ [Decrypt (encryptedCredentials c) (iv c),
                                        GetSchedule (p_id p) cr f t']\<rparr>)"
    using performSync_after_provider[OF h(1) h(2) h(3) h(4) h(6) h(7) h(8)] assms(4)
    unfolding p0 h(9)[symmetric] h(10)[symmetric] by (simp add: Let_def)
  show ?thesis
    using ps h(5) p0 by (simp add: run_calls_def)
qed


theorem provider_failure_changes_nothing_witness:
  "GetSchedule ''wigor'' (Object [(''schoolId'', String (map of_char ''epsi''))])
       \<lparr>getFullYear = 2023, getMonth = 8, getDate = 1\<rparr>
       \<lparr>getFullYear = 2024, getMonth = 8, getDate = 13\<rparr>
     \<in> set (run_calls (demo_env_provider (\<lambda>c f t. Inl (ProviderError ''timeout''))) ''t1'' demo_world)
   \<and> findUnique ''t1'' demo_world = Some demo_timetable
   \<and> fst (performSync (demo_env_provider (\<lambda>c f t. Inl (ProviderError ''timeout''))) ''t1'' demo_world)
       = Inl (ProviderError ''timeout'')
   \<and> courses (snd (performSync (demo_env_provider (\<lambda>c f t. Inl (ProviderError ''timeout''))) ''t1'' demo_world))
       = courses demo_world
   \<and> timetables (snd (performSync (demo_env_provider (\<lambda>c f t. Inl (ProviderError ''timeout''))) ''t1'' demo_world))
       = timetables demo_world"
proof -
  let ?g = "\<lambda>(c::jsvalue) (f::Date) (t::Date). (Inl (ProviderError ''timeout'') :: error + fetched list)"
  let ?E = "demo_env_provider ?g"
  have h1: "GetSchedule ''wigor'' (Object [(''schoolId'', String (map of_char ''epsi''))])
       \<lparr>getFullYear = 2023, getMonth = 8, getDate = 1\<rparr>
       \<lparr>getFullYear = 2024, getMonth = 8, getDate = 13\<rparr>
     \<in> set (run_calls ?E ''t1'' demo_world)" by code_simp
  have h2: "findUnique ''t1'' demo_world = Some demo_timetable" by code_simp
  have h3: "getProvider (providers ?E) (providerId demo_timetable)
            = Some (demo_provider\<lparr>getSchedule := ?g\<rparr>)"
    by (simp add: getProvider_def demo_env_provider_def demo_provider_def demo_timetable_def)
  have h4: "getSchedule (demo_provider\<lparr>getSchedule := ?g\<rparr>)
              (Object [(''schoolId'', String (map of_char ''epsi''))])
              \<lparr>getFullYear = 2023, getMonth = 8, getDate = 1\<rparr>
              \<lparr>getFullYear = 2024, getMonth = 8, getDate = 13\<rparr> = Inl (ProviderError ''timeout'')"
    by simp
  from provider_failure_changes_nothing[OF h1 h2 h3 h4] h1 h2 show ?thesis by simp
qed

text \<open>
  C6. The claim is what the code sets out to do (its comment at line 69:
  \<open>Remove the repeatable job since the timetable doesn't exist anymore\<close>), and the
  code does not do it. The timetable
  \<open>t1\<close> was created (\<open>scheduleTimetableSync("t1", 60)\<close> registered the repeatable job)
  and then deleted; the run of \<open>performSync("t1")\<close> returns
  \<open>{ success: false, message: "Timetable not found" }\<close>, calls nothing and leaves the
  state as it was: the registration keyed \<open>sync-t1\<close> is still there. The loop looks for
  a job whose \<open>id\<close> is \<open>sync-t1\<close>, and the listing gives the job no \<open>id\<close>. The rest
  of the claim holds: nothing is thrown, decrypted, fetched or written (lemma
  \<open>missing_timetable_run\<close>).
\<close>

theorem missing_timetable_keeps_registration:
  "snd (scheduleTimetableSync ''t1'' 60 demo_world_before)
     = demo_world_before\<lparr>timetableQueue := Some \<lparr>repeatable = [demo_job], added = []\<rparr>,
                          calls := [QueueAdd ''sync'' ''t1'']\<rparr>
   \<and> timetableQueue demo_world_deleted = Some \<lparr>repeatable = [demo_job], added = []\<rparr>
   \<and> findUnique ''t1'' demo_world_deleted = None
   \<and> registrations ''sync-t1'' demo_world_deleted = [demo_job]
   \<and> performSync demo_env ''t1'' demo_world_deleted
       = (Inr (Skipped ''Timetable not found''), demo_world_deleted)
   \<and> run_calls demo_env ''t1'' demo_world_deleted = []
   \<and> registrations ''sync-t1'' (snd (performSync demo_env ''t1'' demo_world_deleted))
       = [demo_job]"
  by code_simp

text \<open>
  C7. The claim is what the code sets out to do (its comment at line 190:
  \<open>Remove existing repeatable jobs for this timetable\<close>), and the code does not do
  it. After
  \<open>scheduleTimetableSync("t1", 60)\<close> and \<open>scheduleTimetableSync("t1", 15)\<close> on a queue
  without jobs there are two registrations keyed \<open>sync-t1\<close>, one for each interval, and
  no job was removed: the loop looks for a job whose \<open>id\<close> is \<open>sync-t1\<close>, and the
  listing gives the job no \<open>id\<close>. (With the same interval twice the second job has the
  key of the first and takes its place, so one registration is left. With the interval 0
  the broker throws and nothing is registered.)
\<close>

theorem rescheduling_leaves_two_registrations:
  "map rj_key (registrations ''sync-t1''
      (snd (scheduleTimetableSync ''t1'' 15 (snd (scheduleTimetableSync ''t1'' 60 demo_world_before)))))
     = [(''sync'', ''sync-t1'', 3600000), (''sync'', ''sync-t1'', 900000)]
   \<and> calls (snd (scheduleTimetableSync ''t1'' 15 (snd (scheduleTimetableSync ''t1'' 60 demo_world_before))))
     = [QueueAdd ''sync'' ''t1'', QueueAdd ''sync'' ''t1'']
   \<and> map rj_key (registrations ''sync-t1''
      (snd (scheduleTimetableSync ''t1'' 60 (snd (scheduleTimetableSync ''t1'' 60 demo_world_before)))))
     = [(''sync'', ''sync-t1'', 3600000)]
   \<and> scheduleTimetableSync ''t1'' 0 demo_world_before = (Some InvalidRepeatOptions, demo_world_before)"
  by code_simp

text \<open>
  C8, as the code has it. Loading the encryption module throws exactly when the
  environment variable is set to a non-empty key whose length is not 32 characters
  (UTF-16 code units); for a key of ASCII characters this is exactly when the key is not
  32 bytes long. When the variable is absent or empty the module takes the built-in
  development key and loads; the key it keeps always has 32 characters.
\<close>

theorem key_check_on_load:
  "((\<exists>e. load_ENCRYPTION_KEY env_key = Inl e)
      \<longleftrightarrow> (\<exists>k. env_key = Some k \<and> k \<noteq> [] \<and> length k \<noteq> 32))
   \<and> (\<forall>k. env_key = Some k \<and> k \<noteq> [] \<and> (\<forall>u \<in> set k. u < 0x80) \<longrightarrow>
         ((\<exists>e. load_ENCRYPTION_KEY env_key = Inl e) \<longleftrightarrow> length (Buffer_from k) \<noteq> 32))
   \<and> load_ENCRYPTION_KEY None = Inr DEV_KEY
   \<and> load_ENCRYPTION_KEY (Some []) = Inr DEV_KEY
   \<and> (\<forall>key. load_ENCRYPTION_KEY env_key = Inr key \<longrightarrow> length key = 32)"
proof -
  have a: "(\<exists>e. load_ENCRYPTION_KEY env_key = Inl e)
      \<longleftrightarrow> (\<exists>k. env_key = Some k \<and> k \<noteq> [] \<and> length k \<noteq> 32)"
    by (auto simp: load_ENCRYPTION_KEY_def DEV_KEY_def split: option.splits)
  have b: "\<forall>k. env_key = Some k \<and> k \<noteq> [] \<and> (\<forall>u \<in> set k. u < 0x80) \<longrightarrow>
         ((\<exists>e. load_ENCRYPTION_KEY env_key = Inl e) \<longleftrightarrow> length (Buffer_from k) \<noteq> 32)"
    using a by (auto simp: length_Buffer_from_ascii)
  have c: "load_ENCRYPTION_KEY None = Inr DEV_KEY" "load_ENCRYPTION_KEY (Some []) = Inr DEV_KEY"
    by (simp_all add: load_ENCRYPTION_KEY_def DEV_KEY_def)
  have d: "\<forall>key. load_ENCRYPTION_KEY env_key = Inr key \<longrightarrow> length key = 32"
    by (auto simp: load_ENCRYPTION_KEY_def DEV_KEY_def split: option.splits if_splits)
  from a b c d show ?thesis by (intro conjI)
qed

theorem key_check_on_load_witness:
  "(\<exists>e. load_ENCRYPTION_KEY (Some (map of_char ''too short'')) = Inl e)
   \<and> length (map of_char ''too short'' :: utf16) \<noteq> 32
   \<and> length (Buffer_from (map of_char ''too short'')) \<noteq> 32"
proof -
  have "\<exists>k. Some (map of_char ''too short'' :: utf16) = Some k \<and> k \<noteq> [] \<and> length k \<noteq> 32"
    by simp
  with key_check_on_load[of "Some (map of_char ''too short'')"]
  have e: "\<exists>e. load_ENCRYPTION_KEY (Some (map of_char ''too short'')) = Inl e"
    by blast
  have asc: "\<forall>u \<in> set (map of_char ''too short'' :: utf16). u < 0x80" by code_simp
  with key_check_on_load[of "Some (map of_char ''too short'')"] e
  have b: "length (Buffer_from (map of_char ''too short'')) \<noteq> 32" by auto
  from e b show ?thesis by simp
qed

text \<open>C8 as stated fails: with no key configured the module loads, on the development
  key.\<close>

theorem absent_key_loads:
  "load_ENCRYPTION_KEY None = Inr DEV_KEY"
  by (simp add: load_ENCRYPTION_KEY_def DEV_KEY_def)

text \<open>
  C9. \<open>POST /api/timetables\<close> keeps the invariant that no two timetables have the same
  owner, provider and school. A request of a user for a provider and (normalised) school
  for which that user already has a timetable is rejected and leaves the state as it
  was: no timetable and no credentials row is stored. When the request passes the checks
  that the handler makes first (verified e-mail, the three required fields, a known
  provider, a school where the provider has schools, credentials the provider accepts)
  and the configured key is one the cipher takes, the rejection is the status 400 with
  the error \<open>ALREADY_EXISTS\<close>.
\<close>

theorem one_timetable_per_triple:
  assumes "one_per_triple w"
  shows "one_per_triple (snd (post_timetables E req w))
       \<and> ((\<exists>t \<in> set (timetables w). req_session req = Some s
              \<and> triple t = (user_id s, the (body_providerId req),
                            normalizedSchoolId (body_schoolId req)))
           \<longrightarrow> (\<exists>st e. post_timetables E req w = (Rejected st e, w))
             \<and> (emailVerified s
                 \<and> truthy (body_providerId req) \<and> truthy (body_identifier req)
                 \<and> truthy (body_password req)
                 \<and> getProvider (providers E) (the (body_providerId req)) = Some p
                 \<and> (schools p = None \<or> schools p = Some [] \<or> truthy (body_schoolId req))
                 \<and> validateCredentials p
                      (Object [(''identifier'', String (the (body_identifier req))),
                               (''password'', String (the (body_password req))),
                               (''schoolId'', (case body_schoolId req of
                                                 None \<Rightarrow> Undefined
                                               | Some sid \<Rightarrow> String sid))]) = Inr True
                 \<and> length (Buffer_from (ENCRYPTION_KEY E)) = 32
                 \<longrightarrow> post_timetables E req w = (Rejected 400 ''ALREADY_EXISTS'', w)))"
proof (intro conjI impI)
  show "one_per_triple (snd (post_timetables E req w))"
    using post_timetables_cases[of E req w] assms
    by (auto simp: one_per_triple_def)
next
  assume ex: "\<exists>t \<in> set (timetables w). req_session req = Some s
              \<and> triple t = (user_id s, the (body_providerId req),
                            normalizedSchoolId (body_schoolId req))"
  show "\<exists>st e. post_timetables E req w = (Rejected st e, w)"
    using post_timetables_cases[of E req w] ex by force
next
  assume ex: "\<exists>t \<in> set (timetables w). req_session req = Some s
              \<and> triple t = (user_id s, the (body_providerId req),
                            normalizedSchoolId (body_schoolId req))"
     and v: "emailVerified s
                 \<and> truthy (body_providerId req) \<and> truthy (body_identifier req)
                 \<and> truthy (body_password req)
                 \<and> getProvider (providers E) (the (body_providerId req)) = Some p
                 \<and> (schools p = None \<or> schools p = Some [] \<or> truthy (body_schoolId req))
                 \<and> validateCredentials p
                      (Object [(''identifier'', String (the (body_identifier req))),
                               (''password'', String (the (body_password req))),
                               (''schoolId'', (case body_schoolId req of
                                                 None \<Rightarrow> Undefined
                                               | Some sid \<Rightarrow> String sid))]) = Inr True
                 \<and> length (Buffer_from (ENCRYPTION_KEY E)) = 32"
  from ex obtain t where t: "t \<in> set (timetables w)" "req_session req = Some s"
    "triple t = (user_id s, the (body_providerId req), normalizedSchoolId (body_schoolId req))"
    by blast
  from v t show "post_timetables E req w = (Rejected 400 ''ALREADY_EXISTS'', w)"
    by (intro post_timetables_duplicate[where s = s and p = p and t = t]) simp_all
qed

theorem one_timetable_per_triple_witness:
  "one_per_triple demo_world
   \<and> demo_timetable \<in> set (timetables demo_world)
   \<and> triple demo_timetable = (''u1'', ''wigor'', Some (map of_char ''epsi''))
   \<and> post_timetables demo_env demo_request demo_world = (Rejected 400 ''ALREADY_EXISTS'', demo_world)
   \<and> one_per_triple (snd (post_timetables demo_env demo_request demo_world))"
proof -
  let ?s = "\<lparr>user_id = ''u1'', emailVerified = True\<rparr>"
  have h: "one_per_triple demo_world" by code_simp
  have m: "demo_timetable \<in> set (timetables demo_world)" by code_simp
  have tr: "triple demo_timetable = (''u1'', ''wigor'', Some (map of_char ''epsi''))" by code_simp
  have ex: "\<exists>t \<in> set (timetables demo_world). req_session demo_request = Some ?s
              \<and> triple t = (user_id ?s, the (body_providerId demo_request),
                            normalizedSchoolId (body_schoolId demo_request))"
    by code_simp
  have p: "getProvider (providers demo_env) (the (body_providerId demo_request)) = Some demo_provider"
    by (simp add: getProvider_def demo_env_def demo_provider_def demo_request_def)
  have v: "emailVerified ?s
         \<and> truthy (body_providerId demo_request) \<and> truthy (body_identifier demo_request)
         \<and> truthy (body_password demo_request)
         \<and> (schools demo_provider = None \<or> schools demo_provider = Some []
             \<or> truthy (body_schoolId demo_request))"
    by code_simp
  have kl: "length (Buffer_from (ENCRYPTION_KEY demo_env)) = 32" by code_simp
  have c: "validateCredentials demo_provider
             (Object [(''identifier'', String (the (body_identifier demo_request))),
                      (''password'', String (the (body_password demo_request))),
                      (''schoolId'', (case body_schoolId demo_request of
                                        None \<Rightarrow> Undefined
                                      | Some sid \<Rightarrow> String sid))]) = Inr True"
    by (simp add: demo_provider_def)
  note th = one_timetable_per_triple[OF h, of demo_env demo_request ?s demo_provider]
  from th have a: "one_per_triple (snd (post_timetables demo_env demo_request demo_world))"
    by blast
  from th ex p v c kl have b:
    "post_timetables demo_env demo_request demo_world = (Rejected 400 ''ALREADY_EXISTS'', demo_world)"
    by blast
  from h m tr a b show ?thesis by (intro conjI)
qed

text \<open>
  C10. The school of a stored timetable is \<open>null\<close> or a string with a character that is
  not white space: \<open>POST /api/timetables\<close>, the only code that writes it, stores the
  school so, and a run of \<open>performSync\<close> does not change it. On such a state the
  credentials that a run passes to \<open>getSchedule\<close> are the value \<open>JSON.parse\<close> gave for
  the decrypted credentials of the timetable; when the \<open>schoolId\<close> of the timetable is
  not \<open>null\<close>, its property \<open>schoolId\<close> has been set to that \<open>schoolId\<close> (whatever was
  stored there) and every other property is as parsed; when the \<open>schoolId\<close> is \<open>null\<close>,
  they are passed as parsed.
\<close>

theorem credentials_passed_to_provider:
  assumes "GetSchedule pid cr f t' \<in> set (run_calls E tid w)"
      and "normalized_schools w"
  shows "(\<exists>t c s parsed.
           findUnique tid w = Some t \<and> credentials t = Some c
         \<and> decrypt (cipher E) (ENCRYPTION_KEY E) (encryptedCredentials c) (iv c) = Inr s
         \<and> JSON_parse E s = Inr parsed
         \<and> (case schoolId t of
               None \<Rightarrow> cr = parsed
             | Some sid \<Rightarrow>
                 set_property parsed ''schoolId'' (String sid) = Inr cr
               \<and> get_property cr ''schoolId'' = Some (String sid)
               \<and> (\<forall>k. k \<noteq> ''schoolId'' \<longrightarrow> get_property cr k = get_property parsed k)))
       \<and> normalized_schools (snd (post_timetables E req w))
       \<and> normalized_schools (snd (performSync E tid w))"
proof -
  from assms(1) obtain q t c p s parsed where h:
    "timetableQueue w = Some q" "findUnique tid w = Some t" "credentials t = Some c"
    "getProvider (providers E) (providerId t) = Some p" "pid = p_id p"
    "decrypt (cipher E) (ENCRYPTION_KEY E) (encryptedCredentials c) (iv c) = Inr s"
    "JSON_parse E s = Inr parsed" "with_schoolId t parsed = Inr cr"
    "f = fst (fetch_window (now E))" "t' = snd (fetch_window (now E))"
    by (rule reaches_provider)
  from findUnique_Some[OF h(2)] assms(2)
  have n: "normalizedSchoolId (schoolId t) = schoolId t"
    by (simp add: normalized_schools_iff)
  have tr: "truthy (Some sid)" if "schoolId t = Some sid" for sid
    using n that by (auto simp: normalizedSchoolId_def split: if_splits)
  have "case schoolId t of
               None \<Rightarrow> cr = parsed
             | Some sid \<Rightarrow>
                 set_property parsed ''schoolId'' (String sid) = Inr cr
               \<and> get_property cr ''schoolId'' = Some (String sid)
               \<and> (\<forall>k. k \<noteq> ''schoolId'' \<longrightarrow> get_property cr k = get_property parsed k)"
  proof (cases "schoolId t")
    case None
    with h(8) show ?thesis by (simp add: with_schoolId_def truthy_def)
  next
    case (Some sid)
    with h(8) tr[OF Some] have sp: "set_property parsed ''schoolId'' (String sid) = Inr cr"
      by (simp add: with_schoolId_def)
    from get_set_property[OF sp] sp Some show ?thesis by simp
  qed
  with h(2,3,6,7) have first: "\<exists>t c s parsed.
           findUnique tid w = Some t \<and> credentials t = Some c
         \<and> decrypt (cipher E) (ENCRYPTION_KEY E) (encryptedCredentials c) (iv c) = Inr s
         \<and> JSON_parse E s = Inr parsed
         \<and> (case schoolId t of
               None \<Rightarrow> cr = parsed
             | Some sid \<Rightarrow>
                 set_property parsed ''schoolId'' (String sid) = Inr cr
               \<and> get_property cr ''schoolId'' = Some (String sid)
               \<and> (\<forall>k. k \<noteq> ''schoolId'' \<longrightarrow> get_property cr k = get_property parsed k))"
    by blast
  from first post_timetables_normalized[OF assms(2)] performSync_normalized[OF assms(2)]
  show ?thesis by (intro conjI)
qed

theorem credentials_passed_to_provider_witness:
  "GetSchedule ''wigor'' (Object [(''schoolId'', String (map of_char ''epsi''))])
       \<lparr>getFullYear = 2023, getMonth = 8, getDate = 1\<rparr>
       \<lparr>getFullYear = 2024, getMonth = 8, getDate = 13\<rparr>
     \<in> set (run_calls demo_env ''t1'' demo_world)
   \<and> normalized_schools demo_world
   \<and> schoolId demo_timetable = Some (map of_char ''epsi'')
   \<and> (\<exists>parsed. JSON_parse demo_env (map of_char ''{}'') = Inr parsed
        \<and> set_property parsed ''schoolId'' (String (map of_char ''epsi''))
            = Inr (Object [(''schoolId'', String (map of_char ''epsi''))]))
   \<and> normalized_schools (snd (post_timetables demo_env demo_request demo_world))"
proof -
  have h: "GetSchedule ''wigor'' (Object [(''schoolId'', String (map of_char ''epsi''))])
       \<lparr>getFullYear = 2023, getMonth = 8, getDate = 1\<rparr>
       \<lparr>getFullYear = 2024, getMonth = 8, getDate = 13\<rparr>
     \<in> set (run_calls demo_env ''t1'' demo_world)" by code_simp
  have n: "normalized_schools demo_world" by code_simp
  have t: "findUnique ''t1'' demo_world = Some demo_timetable" by code_simp
  have c: "credentials demo_timetable = Some demo_credential" by code_simp
  have d: "decrypt (cipher demo_env) (ENCRYPTION_KEY demo_env)
             (encryptedCredentials demo_credential) (iv demo_credential) = Inr (map of_char ''{}'')"
    by code_simp
  have s: "schoolId demo_timetable = Some (map of_char ''epsi'')" by code_simp
  note th = credentials_passed_to_provider[OF h n, of demo_request]
  from th obtain t0 c0 s0 parsed where r:
    "findUnique ''t1'' demo_world = Some t0" "credentials t0 = Some c0"
    "decrypt (cipher demo_env) (ENCRYPTION_KEY demo_env) (encryptedCredentials c0) (iv c0) = Inr s0"
    "JSON_parse demo_env s0 = Inr parsed"
    "(case schoolId t0 of
               None \<Rightarrow> Object [(''schoolId'', String (map of_char ''epsi''))] = parsed
             | Some sid \<Rightarrow>
                 set_property parsed ''schoolId'' (String sid)
                   = Inr (Object [(''schoolId'', String (map of_char ''epsi''))])
               \<and> get_property (Object [(''schoolId'', String (map of_char ''epsi''))]) ''schoolId''
                   = Some (String sid)
               \<and> (\<forall>k. k \<noteq> ''schoolId'' \<longrightarrow>
                     get_property (Object [(''schoolId'', String (map of_char ''epsi''))]) k
                       = get_property parsed k))"
    by blast
  from r(1) t have t0: "t0 = demo_timetable" by simp
  from r(2) c t0 have c0: "c0 = demo_credential" by simp
  from r(3) d c0 have s0: "s0 = map of_char ''{}''" by simp
  from r(5) have "set_property parsed ''schoolId'' (String (map of_char ''epsi''))
            = Inr (Object [(''schoolId'', String (map of_char ''epsi''))])"
    unfolding t0 s by simp
  with r(4) s0 have e: "\<exists>parsed. JSON_parse demo_env (map of_char ''{}'') = Inr parsed
        \<and> set_property parsed ''schoolId'' (String (map of_char ''epsi''))
            = Inr (Object [(''schoolId'', String (map of_char ''epsi''))])" by blast
  from th have p: "normalized_schools (snd (post_timetables demo_env demo_request demo_world))"
    by blast
  from h n s e p show ?thesis by (intro conjI)
qed

end
